theory Spec2Isabelle
  imports Complex_Main "HOL-Library.Word" "HOL-Library.Signed_Division"
begin

unbundle bit_operations_syntax

section \<open>voicelog: the WAV codec and the capture and playback sessions of main.go\<close>

text \<open>
  The embedding follows \<^verbatim>\<open>main.go\<close>. Go's fixed-width integers are words:
  \<^verbatim>\<open>byte\<close> is \<open>8 word\<close>, \<^verbatim>\<open>int16\<close> and \<^verbatim>\<open>uint16\<close> are \<open>16 word\<close>,
  \<^verbatim>\<open>uint32\<close> is \<open>32 word\<close>, and \<^verbatim>\<open>int\<close> and \<^verbatim>\<open>int64\<close> are \<open>64 word\<close> (the
  release scripts build for amd64), read as two's complement with \<open>sint\<close>. A conversion
  between integer types is \<open>ucast\<close>: it keeps the low bits, as Go does. Slice lengths and
  the playback cursor, which only counts up to a slice length, are \<open>nat\<close>.
  A \<^verbatim>\<open>float64\<close> value is the rational number it denotes, and every floating-point
  operation rounds its exact result to the nearest double, ties to even (\<open>round_f64\<close>
  below). \<^verbatim>\<open>time.Duration\<close> and \<^verbatim>\<open>time.Time\<close> are integers counting
  nanoseconds. Writes to the log are not modelled.
\<close>

type_synonym byte = "8 word"
type_synonym goint = "64 word"

subsection \<open>Byte strings, slices and encoding/binary\<close>

definition str_bytes :: "string \<Rightarrow> byte list" where
  "str_bytes s = map (\<lambda>c. of_char c) s"

text \<open>The slice expression \<^verbatim>\<open>xs[lo:hi]\<close>.\<close>

definition slice :: "'a list \<Rightarrow> nat \<Rightarrow> nat \<Rightarrow> 'a list" where
  "slice xs lo hi = take (hi - lo) (drop lo xs)"

text \<open>\<^verbatim>\<open>binary.LittleEndian\<close>: \<^verbatim>\<open>PutUint16\<close>, \<^verbatim>\<open>PutUint32\<close>, \<^verbatim>\<open>Uint16\<close>, \<^verbatim>\<open>Uint32\<close>.\<close>

definition PutUint16 :: "16 word \<Rightarrow> byte list" where
  "PutUint16 v = [ucast v, ucast (drop_bit 8 v)]"

definition PutUint32 :: "32 word \<Rightarrow> byte list" where
  "PutUint32 v = [ucast v, ucast (drop_bit 8 v), ucast (drop_bit 16 v), ucast (drop_bit 24 v)]"

definition Uint16 :: "byte list \<Rightarrow> 16 word" where
  "Uint16 b = ucast (b ! 0) OR push_bit 8 (ucast (b ! 1))"

definition Uint32 :: "byte list \<Rightarrow> 32 word" where
  "Uint32 b = ucast (b ! 0) OR push_bit 8 (ucast (b ! 1)) OR push_bit 16 (ucast (b ! 2))
     OR push_bit 24 (ucast (b ! 3))"

text \<open>Go's integer division truncates towards zero.\<close>

definition go_div :: "goint \<Rightarrow> goint \<Rightarrow> goint" where
  "go_div a b = word_of_int (sint a sdiv sint b)"

definition go_mod :: "goint \<Rightarrow> goint \<Rightarrow> goint" where
  "go_mod a b = word_of_int (sint a smod sint b)"

subsection \<open>Floating point\<close>

text \<open>
  IEEE 754 binary64 rounding of an exact rational result: 53 significant bits, round to
  nearest, ties to even, with the fixed spacing \<open>2^-1074\<close> below \<open>2^-1022\<close>.
  \<open>bitlen n\<close> is the number of binary digits of \<open>n\<close>, \<open>pow2 e\<close> is \<open>2^e\<close>,
  \<open>rne\<close> rounds to the nearest integer with ties to even, and \<open>ilog2 x\<close> is the
  exponent \<open>e\<close> with \<open>2^e \<le> x < 2^(e+1)\<close> of a positive \<open>x\<close>. A result beyond the largest
  double, which is an infinity in Go, stays a finite number here; the only operation
  below that can produce one is the product in \<^verbatim>\<open>processAudioOutput\<close>, which is
  clamped next, with the same outcome for both. \<open>float64 k\<close> is the conversion of an
  integer, and \<open>go_trunc\<close> the conversion of a \<^verbatim>\<open>float64\<close> to an integer type, which
  drops the fraction.
\<close>

function bitlen :: "int \<Rightarrow> int" where
  "bitlen n = (if n \<le> 0 then 0 else 1 + bitlen (n div 2))"
  by pat_completeness auto
termination
  by (relation "measure nat") auto

declare bitlen.simps [simp del]

definition pow2 :: "int \<Rightarrow> rat" where
  "pow2 e = (if 0 \<le> e then 2 ^ nat e else 1 / 2 ^ nat (- e))"

definition rne :: "rat \<Rightarrow> int" where
  "rne x = (let f = \<lfloor>x\<rfloor>; d = x - of_int f
            in if d < 1 / 2 then f else if 1 / 2 < d then f + 1
               else if even f then f else f + 1)"

definition ilog2 :: "rat \<Rightarrow> int" where
  "ilog2 x = (let (p, q) = quotient_of x;
                  c = bitlen p - bitlen q
              in if pow2 c \<le> x then c else c - 1)"

definition round_f64 :: "rat \<Rightarrow> rat" where
  "round_f64 x =
     (if x = 0 then 0
      else let e = max (ilog2 \<bar>x\<bar>) (- 1022); ulp = pow2 (e - 52)
           in of_int (rne (x / ulp)) * ulp)"

definition float64 :: "int \<Rightarrow> rat" where
  "float64 k = round_f64 (of_int k)"

definition go_trunc :: "rat \<Rightarrow> int" where
  "go_trunc x = (if x < 0 then \<lceil>x\<rceil> else \<lfloor>x\<rfloor>)"

text \<open>
  \<^verbatim>\<open>Duration.Seconds\<close> of package time:
  \<^verbatim>\<open>sec := d / Second; nsec := d % Second; return float64(sec) + float64(nsec)/1e9\<close>.
\<close>

definition Seconds :: "int \<Rightarrow> rat" where
  "Seconds d =
     round_f64 (float64 (d sdiv 1000000000)
                + round_f64 (float64 (d smod 1000000000) / 1000000000))"

text \<open>
  \<^verbatim>\<open>binary.Write(w, binary.LittleEndian, in)\<close> for \<^verbatim>\<open>in []int16\<close> emits two bytes
  per sample; the loop at the end of \<^verbatim>\<open>readWAVData\<close> is its inverse and drops a
  trailing odd byte (\<^verbatim>\<open>len(audioData)/2\<close> samples).
\<close>

definition samplesToBytes :: "16 word list \<Rightarrow> byte list" where
  "samplesToBytes S = concat (map PutUint16 S)"

definition bytesToSamples :: "byte list \<Rightarrow> 16 word list" where
  "bytesToSamples audioData =
     map (\<lambda>i. Uint16 (slice audioData (i * 2) (i * 2 + 2))) [0 ..< length audioData div 2]"

subsection \<open>Files\<close>

text \<open>
  A path is the directory and the base name that \<^verbatim>\<open>filepath.Join\<close> puts together;
  \<^verbatim>\<open>fileInfo.Name()\<close> is the base name. An open \<^verbatim>\<open>*os.File\<close> is the path it was
  opened at together with its offset, kept in the table of open files.
  A write at offset \<open>off\<close> replaces the bytes there and extends the file, filling a gap
  past the end with zeros.
\<close>

type_synonym path = "string \<times> string"

definition content_of :: "(path \<rightharpoonup> byte list) \<Rightarrow> path \<Rightarrow> byte list" where
  "content_of d p = (case d p of None \<Rightarrow> [] | Some c \<Rightarrow> c)"

definition writeAt :: "byte list \<Rightarrow> nat \<Rightarrow> byte list \<Rightarrow> byte list" where
  "writeAt content off bs =
     take off content @ replicate (off - length content) 0 @ bs @ drop (off + length bs) content"

subsection \<open>The 44-byte header\<close>

text \<open>
  The buffer that \<^verbatim>\<open>writeWAVHeader\<close> fills before it writes it to the file. The
  fields are adjacent and cover all 44 bytes, so the buffer is their concatenation.
\<close>

definition wavHeader :: "goint \<Rightarrow> goint \<Rightarrow> goint \<Rightarrow> goint \<Rightarrow> byte list" where
  "wavHeader sampleRate channels bitsPerSample dataSize =
     str_bytes ''RIFF'' @ PutUint32 (ucast (36 + dataSize)) @ str_bytes ''WAVE'' @
     str_bytes ''fmt '' @ PutUint32 16 @ PutUint16 1 @
     PutUint16 (ucast channels) @ PutUint32 (ucast sampleRate) @
     PutUint32 (ucast (go_div (sampleRate * channels * bitsPerSample) 8)) @
     PutUint16 (ucast (go_div (channels * bitsPerSample) 8)) @
     PutUint16 (ucast bitsPerSample) @
     str_bytes ''data'' @ PutUint32 (ucast dataSize)"

datatype error = OpenFailed | EOF | NotAValidWAVFile

text \<open>
  The part of \<^verbatim>\<open>readWAVData\<close> between the two reads: the magic check and the three
  fields taken from the 44-byte buffer. \<open>NotAValidWAVFile\<close> is the error
  \<^verbatim>\<open>"not a valid WAV file"\<close>. The result is (channels, sampleRate, dataSize).
\<close>

definition parseHeader :: "byte list \<Rightarrow> error + (goint \<times> goint \<times> goint)" where
  "parseHeader header =
     (if slice header 0 4 \<noteq> str_bytes ''RIFF'' \<or> slice header 8 12 \<noteq> str_bytes ''WAVE''
      then Inl NotAValidWAVFile
      else Inr (ucast (Uint16 (slice header 22 24)),
                ucast (Uint32 (slice header 24 28)),
                ucast (Uint32 (slice header 40 44))))"

text \<open>
  \<^verbatim>\<open>file.Read(buf)\<close> on a regular file whose content is \<open>content\<close>, at offset
  \<open>off\<close>, into a fresh (zeroed) buffer of \<open>n\<close> bytes: one read, which transfers the
  bytes that are there, at most \<open>n\<close> and at most \<open>2^30\<close> (the runtime's limit for one
  read), and reports \<^verbatim>\<open>io.EOF\<close> only when the buffer is not empty and nothing is
  left. The result is the buffer and the new offset.
\<close>

definition file_Read :: "byte list \<Rightarrow> nat \<Rightarrow> nat \<Rightarrow> error + (byte list \<times> nat)" where
  "file_Read content off n =
     (if n = 0 then Inr ([], off)
      else if length content \<le> off then Inl EOF
      else let got = take (min n 1073741824) (drop off content)
           in Inr (got @ replicate (n - length got) 0, off + length got))"

text \<open>
  The header buffer after \<^verbatim>\<open>file.Read(header)\<close> on a file that is not empty: its first
  44 bytes, followed by zeros when the file is shorter.
\<close>

definition headerBuffer :: "byte list \<Rightarrow> byte list" where
  "headerBuffer content = take 44 content @ replicate (44 - length content) 0"

text \<open>
  \<^verbatim>\<open>readWAVData\<close> on a disk, which maps a path to the content of the file there. The
  result is (samples, sampleRate, channels).
\<close>

definition readWAVData ::
  "(path \<rightharpoonup> byte list) \<Rightarrow> path \<Rightarrow> error + (16 word list \<times> goint \<times> goint)" where
  "readWAVData d filePath =
     (case d filePath of
        None \<Rightarrow> Inl OpenFailed
      | Some content \<Rightarrow>
          (case file_Read content 0 44 of
             Inl e \<Rightarrow> Inl e
           | Inr (header, off) \<Rightarrow>
               (case parseHeader header of
                  Inl e \<Rightarrow> Inl e
                | Inr (channels, sampleRate, dataSize) \<Rightarrow>
                    (case file_Read content off (unat dataSize) of
                       Inl e \<Rightarrow> Inl e
                     | Inr (audioData, off') \<Rightarrow>
                         Inr (bytesToSamples audioData, sampleRate, channels)))))"

subsection \<open>The application state\<close>

datatype AppState =
  StateViewing | StateRecording | StatePlaying | StateRenaming | StateTagging | StateSettings

datatype AudioFormat = FormatWAV | FormatMP3 | FormatOGG

fun AudioFormat_String :: "AudioFormat \<Rightarrow> string" where
  "AudioFormat_String FormatWAV = ''WAV''"
| "AudioFormat_String FormatMP3 = ''MP3''"
| "AudioFormat_String FormatOGG = ''OGG''"

record Config =
  DefaultFormat :: AudioFormat
  MemosPath :: string
  InputDevice :: string
  OutputDevice :: string
  SampleRate :: goint
  BitDepth :: goint
  ChannelCount :: goint
  Volume :: rat

record Memo =
  ID :: string
  Filename :: string
  Name :: string
  Duration :: rat
  Created :: int
  Size :: goint
  Tags :: "string list"
  Format :: string

text \<open>The parameters a PortAudio stream was opened with.\<close>

record Stream =
  streamSampleRate :: rat
  streamChannels :: goint
  FramesPerBuffer :: goint

record AudioDevice =
  stream :: "Stream option"
  recordingFile :: "path option"
  playbackData :: "16 word list option"
  playbackPos :: nat

text \<open>
  \<open>Model\<close> has the fields of the Go struct that the audio paths touch (the widgets
  and the visualisation data are left out); the field \<^verbatim>\<open>playbackPos\<close> of the struct
  \<^verbatim>\<open>Model\<close> is \<open>displayPos\<close> here, since \<^verbatim>\<open>AudioDevice\<close> has a field of the same
  name. \<open>World\<close> adds what the program acts on: the disk, the table of open files and
  the calls made to PortAudio, in order.
\<close>

datatype pa_call = Initialize | Terminate | OpenStream | StreamStart | StreamStop | StreamClose

record Model =
  state :: AppState
  config :: Config
  memos :: "Memo list"
  selectedIdx :: nat
  audioDevice :: "AudioDevice option"
  recording :: bool
  playing :: bool
  recordingTime :: int
  displayPos :: int
  recordingPulse :: goint
  lastUpdate :: int
  notification :: string
  notificationAt :: "int option"

record World = Model +
  disk :: "path \<rightharpoonup> byte list"
  openFiles :: "path \<rightharpoonup> nat"
  paCalls :: "pa_call list"

text \<open>
  What the operating system, PortAudio, the JSON encoder and the clock answer during one
  call: whether each fallible step succeeds, which devices exist, the formatted time
  stamp that \<^verbatim>\<open>generateFilename\<close> uses, the bytes \<^verbatim>\<open>json.MarshalIndent\<close> produces
  for a memo list, and the time.
\<close>

record DeviceInfo =
  DeviceName :: string
  MaxInputChannels :: goint
  DefaultSampleRate :: rat

record Env =
  InitializeOk :: bool
  DeviceByID :: "string \<Rightarrow> DeviceInfo option"
  DefaultInputDevice :: "DeviceInfo option"
  DefaultOutputDevice :: "DeviceInfo option"
  Timestamp :: string
  CreateOk :: bool
  HeaderWriteOk :: bool
  OpenStreamOk :: bool
  StreamStartOk :: bool
  MetadataJSON :: "Memo list \<Rightarrow> byte list"
  SaveMemosOk :: bool
  Now :: int
  UnixSeconds :: string

text \<open>\<^verbatim>\<open>generateFilename\<close>, and the choice of a device by identifier or by default.\<close>

fun Extension :: "AudioFormat \<Rightarrow> string" where
  "Extension FormatWAV = ''.wav''"
| "Extension FormatMP3 = ''.mp3''"
| "Extension FormatOGG = ''.ogg''"

definition generateFilename :: "Env \<Rightarrow> AudioFormat \<Rightarrow> string" where
  "generateFilename env format = ''memo_'' @ Timestamp env @ Extension format"

definition selectDevice :: "Env \<Rightarrow> string \<Rightarrow> DeviceInfo option \<Rightarrow> DeviceInfo option" where
  "selectDevice env deviceID dflt =
     (case (if deviceID \<noteq> [] then DeviceByID env deviceID else None) of
        None \<Rightarrow> dflt
      | Some d \<Rightarrow> Some d)"

subsection \<open>Recording\<close>

text \<open>\<^verbatim>\<open>file.Write(bs)\<close> on the open file at \<open>p\<close>; on a closed file nothing is written.\<close>

definition file_Write :: "path \<Rightarrow> byte list \<Rightarrow> ('a World_scheme) \<Rightarrow> ('a World_scheme)" where
  "file_Write p bs w =
     (case openFiles w p of
        None \<Rightarrow> w
      | Some off \<Rightarrow>
          w\<lparr>disk := (disk w)(p \<mapsto> writeAt (content_of (disk w) p) off bs),
            openFiles := (openFiles w)(p \<mapsto> off + length bs)\<rparr>)"

definition pa :: "pa_call list \<Rightarrow> ('a World_scheme) \<Rightarrow> ('a World_scheme)" where
  "pa cs w = w\<lparr>paCalls := paCalls w @ cs\<rparr>"

text \<open>\<^verbatim>\<open>filepath.Ext\<close> of a base name, and \<^verbatim>\<open>strings.TrimSuffix\<close>.\<close>

definition Ext :: "string \<Rightarrow> string" where
  "Ext s = (if CHR ''.'' \<in> set s
            then CHR ''.'' # rev (takeWhile (\<lambda>c. c \<noteq> CHR ''.'') (rev s)) else [])"

definition TrimSuffix :: "string \<Rightarrow> string \<Rightarrow> string" where
  "TrimSuffix s suf =
     (if length suf \<le> length s \<and> drop (length s - length suf) s = suf
      then take (length s - length suf) s else s)"

text \<open>
  The block \<^verbatim>\<open>if m.audioDevice.recordingFile != nil { ... }\<close> of
  \<^verbatim>\<open>stopRecording\<close>: it returns the file name, the file size and the duration, and
  patches and closes the file. \<^verbatim>\<open>Stat\<close>, \<^verbatim>\<open>Seek\<close>, the 4-byte write and
  \<^verbatim>\<open>Close\<close> on the open file are taken to succeed.
\<close>

definition recordingDuration :: "Config \<Rightarrow> goint \<Rightarrow> int \<Rightarrow> rat" where
  "recordingDuration c dataSize elapsed =
     (let bytesPerSample = ChannelCount c * BitDepth c
      in if 0 < sint bytesPerSample \<and> 0 < sint (SampleRate c)
         then let samples = go_div dataSize bytesPerSample
              in round_f64 (float64 (sint samples) / float64 (sint (SampleRate c)))
         else Seconds elapsed)"

definition finalizeFile ::
  "path \<Rightarrow> ('a World_scheme) \<Rightarrow> string \<times> goint \<times> rat \<times> ('a World_scheme)" where
  "finalizeFile p w =
     (let content = content_of (disk w) p;
          filename = snd p;
          fileSize = (of_nat (length content) :: goint);
          dataSize = fileSize - 44;
          duration = recordingDuration (config w) dataSize (recordingTime w);
          w1 = file_Write p (PutUint32 (ucast dataSize)) (w\<lparr>openFiles := (openFiles w)(p \<mapsto> 40)\<rparr>)
      in (filename, fileSize, duration, w1\<lparr>openFiles := (openFiles w1)(p := None)\<rparr>))"

text \<open>
  \<^verbatim>\<open>saveMemos(m.memos, m.config.MemosPath)\<close>: the encoded memo list replaces the
  content of \<^verbatim>\<open>metadata.json\<close> in the memo directory; a write that fails is logged and,
  here, writes nothing.
\<close>

definition saveMemos :: "Env \<Rightarrow> ('a World_scheme) \<Rightarrow> ('a World_scheme)" where
  "saveMemos env w =
     (if SaveMemosOk env
      then w\<lparr>disk := (disk w)((MemosPath (config w), ''metadata.json'')
                              \<mapsto> MetadataJSON env (memos w))\<rparr>
      else w)"

definition stopRecording :: "Env \<Rightarrow> ('a World_scheme) \<Rightarrow> ('a World_scheme)" where
  "stopRecording env w0 =
     (let w1 = w0\<lparr>recording := False, state := StateViewing\<rparr>;
          (filename, fileSize, duration, w2) =
            (case audioDevice w1 of
               None \<Rightarrow> ([], 0, 0, w1)
             | Some dev \<Rightarrow>
                 let wa = (case stream dev of
                             None \<Rightarrow> w1
                           | Some s \<Rightarrow> pa [StreamStop, StreamClose] w1);
                     (fn, fs, du, wb) =
                       (case recordingFile dev of
                          None \<Rightarrow> ([], 0, 0, wa)
                        | Some p \<Rightarrow> finalizeFile p wa)
                 in (fn, fs, du, wb\<lparr>audioDevice := None\<rparr>));
          w3 = pa [Terminate] w2;
          w4 = (if filename \<noteq> []
                then saveMemos env
                       (w3\<lparr>memos :=
                          \<lparr>ID = UnixSeconds env, Filename = filename,
                           Name = TrimSuffix filename (Ext filename),
                           Duration = duration, Created = Now env, Size = fileSize,
                           Tags = [], Format = AudioFormat_String (DefaultFormat (config w3))\<rparr>
                          # memos w3\<rparr>)
                else w3)
      in w4\<lparr>recordingTime := 0\<rparr>)"

text \<open>
  \<^verbatim>\<open>startRecording\<close>, from the state that its first call,
  \<^verbatim>\<open>initializeAudioDevices\<close>, leaves (device detection: it fills the device list
  and the default device identifiers of the configuration when the list is empty).
  A header write that fails writes nothing.
\<close>

definition streamParams :: "Config \<Rightarrow> DeviceInfo \<Rightarrow> Stream" where
  "streamParams c inputDev =
     \<lparr>streamSampleRate =
        (if 0 < DefaultSampleRate inputDev then DefaultSampleRate inputDev
         else float64 (sint (SampleRate c))),
      streamChannels =
        (if 0 < sint (MaxInputChannels inputDev)
         then (if sint (MaxInputChannels inputDev) < sint (ChannelCount c)
               then MaxInputChannels inputDev else ChannelCount c)
         else ChannelCount c),
      FramesPerBuffer = 1024\<rparr>"

definition startRecording :: "Env \<Rightarrow> ('a World_scheme) \<Rightarrow> ('a World_scheme)" where
  "startRecording env w0 =
     (let w1 = w0\<lparr>recording := True, state := StateRecording, recordingTime := 0,
                  lastUpdate := Now env\<rparr>;
          w2 = pa [Initialize] w1
      in if \<not> InitializeOk env then stopRecording env w2
         else
           let inputDev = selectDevice env (InputDevice (config w2)) (DefaultInputDevice env)
           in case inputDev of
                None \<Rightarrow> stopRecording env w2
              | Some dev \<Rightarrow>
                  let filename = generateFilename env (DefaultFormat (config w2));
                      filePath = (MemosPath (config w2), filename)
                  in if \<not> CreateOk env then stopRecording env w2
                     else
                       let w3 = w2\<lparr>disk := (disk w2)(filePath \<mapsto> []),
                                   openFiles := (openFiles w2)(filePath \<mapsto> 0)\<rparr>
                       in if \<not> HeaderWriteOk env then stopRecording env w3
                          else
                            let w4 = file_Write filePath
                                       (wavHeader (SampleRate (config w3)) (ChannelCount (config w3))
                                          (BitDepth (config w3) * 8) 0) w3;
                                params = streamParams (config w4) dev;
                                w5 = pa [OpenStream]
                                       (w4\<lparr>audioDevice :=
                                            Some \<lparr>stream = None, recordingFile = Some filePath,
                                                  playbackData = None, playbackPos = 0\<rparr>\<rparr>)
                            in if \<not> OpenStreamOk env then stopRecording env w5
                               else
                                 let w6 = pa [StreamStart]
                                            (w5\<lparr>audioDevice :=
                                                 Some \<lparr>stream = Some params,
                                                       recordingFile = Some filePath,
                                                       playbackData = None, playbackPos = 0\<rparr>\<rparr>)
                                 in if \<not> StreamStartOk env then stopRecording env w6 else w6)"

text \<open>
  \<^verbatim>\<open>processAudioInput\<close>: the block is appended to the recording file; a write that
  fails (\<open>writeOk\<close> false) is logged and writes nothing. The waveform and level meters it
  also updates are not modelled.
\<close>

definition processAudioInput :: "bool \<Rightarrow> 16 word list \<Rightarrow> ('a World_scheme) \<Rightarrow> ('a World_scheme)" where
  "processAudioInput writeOk inp w =
     (case audioDevice w of
        None \<Rightarrow> w
      | Some dev \<Rightarrow>
          (case recordingFile dev of
             None \<Rightarrow> w
           | Some p \<Rightarrow> if writeOk then file_Write p (samplesToBytes inp) w else w))"

subsection \<open>Playback\<close>

text \<open>The body of the loop of \<^verbatim>\<open>processAudioOutput\<close> for a slot that has a sample.\<close>

definition clampSample :: "rat \<Rightarrow> rat" where
  "clampSample sample =
     (if sample > 32767 then 32767 else if sample < - 32768 then - 32768 else sample)"

definition scaleSample :: "16 word \<Rightarrow> rat \<Rightarrow> 16 word" where
  "scaleSample s volume =
     word_of_int (go_trunc (clampSample (round_f64 (float64 (sint s) * volume))))"

text \<open>
  The loop \<^verbatim>\<open>for i := range out\<close>: it overwrites every slot of \<open>out\<close> and returns the
  buffer and the cursor.
\<close>

fun fillOutput :: "16 word list \<Rightarrow> rat \<Rightarrow> nat \<Rightarrow> 16 word list \<Rightarrow> 16 word list \<times> nat" where
  "fillOutput data volume pos [] = ([], pos)"
| "fillOutput data volume pos (x # out) =
     (if pos < length data
      then let (out', pos') = fillOutput data volume (pos + 1) out
           in (scaleSample (data ! pos) volume # out', pos')
      else let (out', pos') = fillOutput data volume pos out
           in (0 # out', pos'))"

definition processAudioOutput ::
  "16 word list \<Rightarrow> ('a World_scheme) \<Rightarrow> 16 word list \<times> ('a World_scheme)" where
  "processAudioOutput out w =
     (case audioDevice w of
        None \<Rightarrow> (map (\<lambda>x. 0) out, w)
      | Some dev \<Rightarrow>
          (case playbackData dev of
             None \<Rightarrow> (map (\<lambda>x. 0) out, w)
           | Some data \<Rightarrow>
               let (out', pos') = fillOutput data (Volume (config w)) (playbackPos dev) out
               in (out', w\<lparr>audioDevice := Some (dev\<lparr>playbackPos := pos'\<rparr>)\<rparr>)))"

text \<open>
  \<^verbatim>\<open>startPlayback\<close>, from the state that \<^verbatim>\<open>initializeAudioDevices\<close> leaves. The
  result is \<open>None\<close> when
  \<^verbatim>\<open>m.memos[m.selectedIdx]\<close> is out of range (a run-time panic). An error of
  \<^verbatim>\<open>readWAVData\<close> is logged and the function returns.
\<close>

definition startPlayback :: "Env \<Rightarrow> ('a World_scheme) \<Rightarrow> ('a World_scheme) option" where
  "startPlayback env w =
     (if memos w = [] then Some w
      else if length (memos w) \<le> selectedIdx w then None
      else
        let memo = memos w ! selectedIdx w;
            filePath = (MemosPath (config w), Filename memo)
        in case readWAVData (disk w) filePath of
             Inl e \<Rightarrow> Some w
           | Inr (audioData, sampleRate, channels) \<Rightarrow>
               let w1 = pa [Initialize] w
               in if \<not> InitializeOk env then Some w1
                  else
                    let outputDev = selectDevice env (OutputDevice (config w1))
                                      (DefaultOutputDevice env)
                    in case outputDev of
                         None \<Rightarrow> Some (pa [Terminate] w1)
                       | Some dev \<Rightarrow>
                           let params = \<lparr>streamSampleRate = float64 (sint sampleRate),
                                         streamChannels = channels, FramesPerBuffer = 1024\<rparr>;
                               w2 = pa [OpenStream]
                                      (w1\<lparr>audioDevice :=
                                           Some \<lparr>stream = None, recordingFile = None,
                                                 playbackData = Some audioData,
                                                 playbackPos = 0\<rparr>\<rparr>)
                           in if \<not> OpenStreamOk env then Some (pa [Terminate] w2)
                              else
                                let w3 = pa [StreamStart]
                                           (w2\<lparr>audioDevice :=
                                                Some \<lparr>stream = Some params, recordingFile = None,
                                                      playbackData = Some audioData,
                                                      playbackPos = 0\<rparr>\<rparr>)
                                in if \<not> StreamStartOk env then Some (pa [Terminate] w3)
                                   else Some (w3\<lparr>playing := True, state := StatePlaying,
                                                 displayPos := 0, lastUpdate := Now env\<rparr>))"

definition pausePlayback :: "('a World_scheme) \<Rightarrow> ('a World_scheme)" where
  "pausePlayback w =
     (let w1 = (case audioDevice w of
                  None \<Rightarrow> w
                | Some dev \<Rightarrow> (case stream dev of None \<Rightarrow> w | Some s \<Rightarrow> pa [StreamStop] w))
      in w1\<lparr>playing := False, state := StateViewing\<rparr>)"

definition stopPlayback :: "('a World_scheme) \<Rightarrow> ('a World_scheme)" where
  "stopPlayback w =
     (let w1 = (case audioDevice w of
                  None \<Rightarrow> w
                | Some dev \<Rightarrow>
                    (case stream dev of
                       None \<Rightarrow> w
                     | Some s \<Rightarrow> pa [StreamStop, StreamClose] w)\<lparr>audioDevice := None\<rparr>);
          w2 = pa [Terminate] w1
      in w2\<lparr>playing := False, state := StateViewing, displayPos := 0\<rparr>)"

subsection \<open>The timer tick\<close>

text \<open>
  The case \<^verbatim>\<open>tickMsg\<close> of \<^verbatim>\<open>Update\<close>, at time \<open>now\<close>. The position is
  \<^verbatim>\<open>time.Duration(float64(pos) / float64(samplesPerSecond) * float64(time.Second))\<close>
  with \<^verbatim>\<open>samplesPerSecond := 44100\<close>.
\<close>

definition samplesPerSecond :: int where
  "samplesPerSecond = 44100"

definition Update_tickMsg :: "int \<Rightarrow> ('a World_scheme) \<Rightarrow> ('a World_scheme)" where
  "Update_tickMsg now w0 =
     (let w1 = (if recording w0
                then w0\<lparr>recordingTime := now - lastUpdate w0 + recordingTime w0,
                        recordingPulse := go_mod (recordingPulse w0 + 1) 20\<rparr>
                else w0);
          w2 = (if playing w1
                then (case audioDevice w1 of
                        None \<Rightarrow> w1
                      | Some dev \<Rightarrow>
                          (case playbackData dev of
                             None \<Rightarrow> w1
                           | Some data \<Rightarrow>
                               let wp = w1\<lparr>displayPos :=
                                            go_trunc (round_f64
                                              (round_f64 (float64 (int (playbackPos dev))
                                                          / float64 samplesPerSecond)
                                               * 1000000000))\<rparr>
                               in if playbackPos dev \<ge> length data then stopPlayback wp
                                  else wp))
                else w1);
          w3 = (case notificationAt w2 of
                  None \<Rightarrow> w2
                | Some t \<Rightarrow>
                    if now - t > 3000000000
                    then w2\<lparr>notification := [], notificationAt := None\<rparr> else w2)
      in w3\<lparr>lastUpdate := now\<rparr>)"

definition ticks :: "int list \<Rightarrow> ('a World_scheme) \<Rightarrow> ('a World_scheme)" where
  "ticks ts w = foldl (\<lambda>w t. Update_tickMsg t w) w ts"

subsection \<open>A recording session\<close>

text \<open>
  Between the start and the stop of a recording the backend delivers blocks and the
  timer ticks. \<open>payload\<close> is what the delivered blocks add to the file.
\<close>

datatype event = Block bool "16 word list" | Tick int

fun step :: "event \<Rightarrow> ('a World_scheme) \<Rightarrow> ('a World_scheme)" where
  "step (Block writeOk inp) w = processAudioInput writeOk inp w"
| "step (Tick now) w = Update_tickMsg now w"

definition run :: "event list \<Rightarrow> ('a World_scheme) \<Rightarrow> ('a World_scheme)" where
  "run events w = foldl (\<lambda>w e. step e w) w events"

fun written :: "event \<Rightarrow> byte list" where
  "written (Block writeOk inp) = (if writeOk then samplesToBytes inp else [])"
| "written (Tick now) = []"

definition payload :: "event list \<Rightarrow> byte list" where
  "payload events = concat (map written events)"

definition session ::
  "Env \<Rightarrow> event list \<Rightarrow> Env \<Rightarrow> ('a World_scheme) \<Rightarrow> ('a World_scheme)" where
  "session env events env' w = stopRecording env' (run events (startRecording env w))"

subsection \<open>Initial state\<close>

text \<open>
  \<^verbatim>\<open>defaultConfig\<close> for a given memo directory, and \<^verbatim>\<open>initialModel\<close> for a given
  configuration, memo list, clock and disk: nothing is open and nothing has been called.
\<close>

definition defaultConfig :: "string \<Rightarrow> Config" where
  "defaultConfig memosPath =
     \<lparr>DefaultFormat = FormatWAV, MemosPath = memosPath, InputDevice = [], OutputDevice = [],
      SampleRate = 44100, BitDepth = 2, ChannelCount = 2, Volume = 1\<rparr>"

definition initialModel :: "Config \<Rightarrow> Memo list \<Rightarrow> int \<Rightarrow> (path \<rightharpoonup> byte list) \<Rightarrow> World" where
  "initialModel c ms now d =
     \<lparr>state = StateViewing, config = c, memos = ms, selectedIdx = 0, audioDevice = None,
      recording = False, playing = False, recordingTime = 0, displayPos = 0,
      recordingPulse = 0, lastUpdate = now, notification = [], notificationAt = None,
      disk = d, openFiles = Map.empty, paCalls = []\<rparr>"

text \<open>An environment in which every step succeeds and one device is present.\<close>

definition allOk :: "string \<Rightarrow> int \<Rightarrow> Env" where
  "allOk stamp now =
     \<lparr>InitializeOk = True, DeviceByID = (\<lambda>x. None),
      DefaultInputDevice =
        Some \<lparr>DeviceName = ''mic'', MaxInputChannels = 2, DefaultSampleRate = 44100\<rparr>,
      DefaultOutputDevice =
        Some \<lparr>DeviceName = ''speakers'', MaxInputChannels = 0, DefaultSampleRate = 44100\<rparr>,
      Timestamp = stamp, CreateOk = True, HeaderWriteOk = True,
      OpenStreamOk = True, StreamStartOk = True,
      MetadataJSON = (\<lambda>ms. str_bytes (concat (map Filename ms))), SaveMemosOk = True,
      Now = now, UnixSeconds = ''0''\<rparr>"

text \<open>The initial state with \<open>data\<close> loaded for playback, the cursor at \<open>pos\<close>.\<close>

definition loaded :: "16 word list \<Rightarrow> nat \<Rightarrow> rat \<Rightarrow> World" where
  "loaded data pos vol =
     (initialModel ((defaultConfig ''memos'')\<lparr>Volume := vol\<rparr>) [] 0 Map.empty)
       \<lparr>audioDevice := Some \<lparr>stream = None, recordingFile = None,
                              playbackData = Some data, playbackPos = pos\<rparr>\<rparr>"

text \<open>A memo record for the file \<open>f\<close>.\<close>

definition memoOf :: "string \<Rightarrow> Memo" where
  "memoOf f = \<lparr>ID = ''test_file'', Filename = f, Name = f, Duration = 0, Created = 0,
               Size = 0, Tags = [], Format = ''WAV''\<rparr>"

text \<open>
  The path of the file that \<^verbatim>\<open>startRecording\<close> creates, the header it writes there,
  and the condition under which every step of \<^verbatim>\<open>startRecording\<close> succeeds.
\<close>

definition recordingPath :: "Env \<Rightarrow> Config \<Rightarrow> path" where
  "recordingPath env c = (MemosPath c, generateFilename env (DefaultFormat c))"

definition initialHeader :: "Config \<Rightarrow> byte list" where
  "initialHeader c = wavHeader (SampleRate c) (ChannelCount c) (BitDepth c * 8) 0"

definition startOk :: "Env \<Rightarrow> ('a World_scheme) \<Rightarrow> bool" where
  "startOk env w \<longleftrightarrow>
     InitializeOk env
     \<and> selectDevice env (InputDevice (config w)) (DefaultInputDevice env) \<noteq> None
     \<and> CreateOk env \<and> HeaderWriteOk env \<and> OpenStreamOk env \<and> StreamStartOk env"

section \<open>Properties of the codec\<close>

lemma Uint16_PutUint16: "Uint16 (PutUint16 v) = v"
  unfolding Uint16_def PutUint16_def
  by (rule bit_word_eqI) (auto simp: bit_simps)

lemma Uint32_PutUint32: "Uint32 (PutUint32 v) = v"
proof (rule bit_word_eqI)
  fix n assume "n < LENGTH(32)"
  then consider "n < 8" | "8 \<le> n" "n < 16" | "16 \<le> n" "n < 24" | "24 \<le> n" "n < 32"
    by fastforce
  then show "bit (Uint32 (PutUint32 v)) n = bit v n"
    unfolding Uint32_def PutUint32_def by cases (auto simp: bit_simps)
qed

lemma length_PutUint16 [simp]: "length (PutUint16 v) = 2"
  by (simp add: PutUint16_def)

lemma length_PutUint32 [simp]: "length (PutUint32 v) = 4"
  by (simp add: PutUint32_def)

lemma length_str_bytes [simp]: "length (str_bytes s) = length s"
  by (simp add: str_bytes_def)

lemma length_samplesToBytes: "length (samplesToBytes S) = 2 * length S"
  by (induction S) (simp_all add: samplesToBytes_def)

lemma length_wavHeader [simp]: "length (wavHeader sr ch bits n) = 44"
  by (simp add: wavHeader_def)

lemma samplesToBytes_Cons: "samplesToBytes (x # xs) = PutUint16 x @ samplesToBytes xs"
  by (simp add: samplesToBytes_def)

lemma slice_samplesToBytes:
  "i < length S \<Longrightarrow> slice (samplesToBytes S) (i * 2) (i * 2 + 2) = PutUint16 (S ! i)"
proof (induction S arbitrary: i)
  case Nil
  then show ?case by simp
next
  case (Cons x xs)
  show ?case
  proof (cases i)
    case 0
    then show ?thesis by (simp add: slice_def samplesToBytes_Cons)
  next
    case (Suc j)
    with Cons.prems have "j < length xs" by simp
    from Cons.IH [OF this] show ?thesis
      using Suc by (simp add: slice_def samplesToBytes_Cons)
  qed
qed

lemma bytesToSamples_samplesToBytes: "bytesToSamples (samplesToBytes S) = S"
proof (rule nth_equalityI)
  show "length (bytesToSamples (samplesToBytes S)) = length S"
    by (simp add: bytesToSamples_def length_samplesToBytes)
next
  fix i assume "i < length (bytesToSamples (samplesToBytes S))"
  then have i: "i < length S"
    by (simp add: bytesToSamples_def length_samplesToBytes)
  then have "bytesToSamples (samplesToBytes S) ! i
      = Uint16 (slice (samplesToBytes S) (i * 2) (i * 2 + 2))"
    by (simp add: bytesToSamples_def length_samplesToBytes)
  also have "\<dots> = S ! i"
    by (simp only: slice_samplesToBytes [OF i] Uint16_PutUint16)
  finally show "bytesToSamples (samplesToBytes S) ! i = S ! i" .
qed

subsection \<open>Conversions between the integer types\<close>

lemma nonneg_sint_uint:
  fixes w :: "'a::len word"
  assumes "0 \<le> sint w"
  shows "uint w = sint w"
proof -
  have nb: "\<not> bit w (LENGTH('a) - Suc 0)"
    using assms by (simp add: sint_uint bit_uint_iff)
  show ?thesis
    by (rule bit_eqI) (use nb in \<open>auto simp: bit_uint_iff bit_sint_iff dest: bit_imp_le_length\<close>)
qed

lemma sint_lt_uint:
  fixes w :: goint
  assumes "0 < sint w" "sint w < 2 ^ n"
  shows "uint w < 2 ^ n"
  using assms nonneg_sint_uint [of w] by simp

lemma ucast32_ucast64:
  fixes w :: goint
  assumes "uint w < 2 ^ 32"
  shows "(ucast (ucast w :: 32 word) :: goint) = w"
proof -
  have "(ucast (ucast w :: 32 word) :: goint) = take_bit 32 w"
    by (rule bit_word_eqI) (auto simp: bit_simps)
  also have "\<dots> = w"
    using assms by (intro word_uint_eqI) (simp add: unsigned_take_bit_eq take_bit_int_eq_self)
  finally show ?thesis .
qed

lemma unat_of_nat_goint: "n < 2 ^ 64 \<Longrightarrow> unat (of_nat n :: goint) = n"
  by (simp add: unat_of_nat)

lemma uint_of_nat_goint: "n < 2 ^ 64 \<Longrightarrow> uint (of_nat n :: goint) = int n"
  using unat_of_nat_goint [of n] by (simp only: uint_nat)

subsection \<open>Header round trip\<close>

lemma parseHeader_wavHeader_raw:
  "parseHeader (wavHeader sr ch bits n) =
     Inr (ucast (ucast ch :: 16 word), ucast (ucast sr :: 32 word), ucast (ucast n :: 32 word))"
  by (simp add: parseHeader_def wavHeader_def slice_def Uint16_PutUint16 Uint32_PutUint32)

lemma file_Read_header:
  "length h = 44 \<Longrightarrow> file_Read (h @ b) 0 44 = Inr (h, 44)"
  by (simp add: file_Read_def)

lemma file_Read_payload:
  "length h = 44 \<Longrightarrow> length b \<le> 1073741824 \<Longrightarrow>
     file_Read (h @ b) 44 (length b) = Inr (b, 44 + length b)"
  by (simp add: file_Read_def)

lemma header_roundtrip:
  assumes "0 < sint sr" and "sint sr < 2 ^ 32" and "ch = 1 \<or> ch = 2" and "n < 2 ^ 32"
  shows "parseHeader (wavHeader sr ch 16 (of_nat n)) = Inr (ch, sr, of_nat n)"
proof -
  have sr: "ucast (ucast sr :: 32 word) = sr"
    by (rule ucast32_ucast64) (rule sint_lt_uint [OF assms(1,2)])
  have ch: "ucast (ucast ch :: 16 word) = ch"
    using assms(3) by auto
  have n: "uint (of_nat n :: goint) = int n"
    using assms(4) by (intro uint_of_nat_goint) simp
  have n': "ucast (ucast (of_nat n :: goint) :: 32 word) = (of_nat n :: goint)"
    by (rule ucast32_ucast64) (use n assms(4) in simp)
  show ?thesis
    by (simp only: parseHeader_wavHeader_raw sr ch n')
qed

lemma readWAVData_roundtrip:
  assumes "0 < sint sr" and "sint sr < 2 ^ 32" and "ch = 1 \<or> ch = 2"
    and "length (samplesToBytes S) \<le> 1073741824"
  shows "readWAVData (d(p \<mapsto> wavHeader sr ch 16 (of_nat (length (samplesToBytes S)))
                                   @ samplesToBytes S)) p = Inr (S, sr, ch)"
proof -
  let ?n = "length (samplesToBytes S)"
  have lt: "?n < 2 ^ 32" using assms(4) by simp
  have hdr: "parseHeader (wavHeader sr ch 16 (of_nat ?n)) = Inr (ch, sr, of_nat ?n)"
    by (rule header_roundtrip [OF assms(1-3) lt])
  have "uint (of_nat ?n :: goint) = int ?n"
    using lt by (intro uint_of_nat_goint) simp
  then have un: "unat (of_nat ?n :: goint) = ?n"
    by (simp add: unat_eq_nat_uint del: nat_uint_eq)
  show ?thesis
    using hdr un assms(4)
    by (simp add: bytesToSamples_samplesToBytes readWAVData_def file_Read_header
        file_Read_payload)
qed

text \<open>
  Claim C2, as amended. Decoding the encoded samples gives back the samples, for every
  sample buffer. The header stores the sample rate and the data size in 32 bits each, so
  for a positive sample rate below \<open>2^32\<close>, one or two channels, 16 bits per sample and
  a sample buffer whose encoding is shorter than \<open>2^32\<close> bytes, parsing the header
  written for them gives back the channel count, the sample rate and the data size.
\<close>

theorem wav_roundtrip:
  "bytesToSamples (samplesToBytes S) = S
   \<and> (0 < sint sr \<and> sint sr < 2 ^ 32 \<and> (ch = 1 \<or> ch = 2)
        \<and> length (samplesToBytes S) < 2 ^ 32
      \<longrightarrow> parseHeader (wavHeader sr ch 16 (of_nat (length (samplesToBytes S))))
            = Inr (ch, sr, of_nat (length (samplesToBytes S))))"
  using header_roundtrip [of sr ch "length (samplesToBytes S)"]
  by (simp only: bytesToSamples_samplesToBytes) blast

theorem wav_roundtrip_witness:
  "0 < sint (44100 :: goint) \<and> sint (44100 :: goint) < 2 ^ 32
   \<and> length (samplesToBytes [100, - 200, 300]) < 2 ^ 32
   \<and> parseHeader (wavHeader 44100 2 16 (of_nat (length (samplesToBytes [100, - 200, 300]))))
       = Inr (2, 44100, 6)
   \<and> bytesToSamples (samplesToBytes [100, - 200, 300]) = [100, - 200, 300]"
  using wav_roundtrip [of "[100, - 200, 300]" 44100 2]
  by (simp add: length_samplesToBytes)

text \<open>
  Claim C2 as stated fails in the header. A positive sample rate that does not fit 32
  bits is not given back: for 4294967297 Hz (\<open>2^32 + 1\<close>), one channel and the empty
  buffer, the header decodes to the sample rate 1. A data size that does not fit 32 bits
  is not given back either: for 2147483648 samples, whose encoding has \<open>2^32\<close> bytes,
  at 44100 Hz and two channels, the header decodes to the data size 0.
\<close>

theorem wav_roundtrip_counterexample:
  "0 < sint (4294967297 :: goint)
   \<and> parseHeader (wavHeader 4294967297 1 16 (of_nat (length (samplesToBytes [])))) = Inr (1, 1, 0)
   \<and> parseHeader (wavHeader 4294967297 1 16 (of_nat (length (samplesToBytes []))))
        \<noteq> Inr (1, 4294967297, of_nat (length (samplesToBytes [])))
   \<and> length (samplesToBytes (replicate 2147483648 0)) = 4294967296
   \<and> parseHeader (wavHeader 44100 2 16
         (of_nat (length (samplesToBytes (replicate 2147483648 0))))) = Inr (2, 44100, 0)
   \<and> parseHeader (wavHeader 44100 2 16
         (of_nat (length (samplesToBytes (replicate 2147483648 0)))))
        \<noteq> Inr (2, 44100, of_nat (length (samplesToBytes (replicate 2147483648 0))))"
  by (simp add: parseHeader_wavHeader_raw length_samplesToBytes)

subsection \<open>Header decoding\<close>

text \<open>The little-endian decoders as sums of the bytes.\<close>

lemma len16: "LENGTH(16) = 16" by simp
lemma len32: "LENGTH(32) = 32" by simp

lemma unat_byte_or_shift:
  fixes a :: byte
  assumes "8 \<le> k"
  shows "unat a OR push_bit k (m :: nat) = unat a + push_bit k m"
proof (rule disjunctive_add [symmetric])
  fix n
  show "\<not> bit (unat a) n \<or> \<not> bit (push_bit k m) n"
    using assms by (auto simp: bit_simps dest: bit_imp_le_length)
qed

lemma unat_ucast_byte16: "unat (ucast (a :: byte) :: 16 word) = unat a"
  using unsigned_less [of a, where 'a = nat]
  by (simp add: unsigned_ucast_eq take_bit_nat_eq_self)

lemma unat_Uint16: "unat (Uint16 [a, b]) = unat a + 256 * unat b"
proof -
  have b: "unat b < 256" using unsigned_less [of b, where 'a = nat] by simp
  have "push_bit 8 (unat b) < (2 :: nat) ^ 16" using b by (simp add: push_bit_eq_mult)
  then have "unat (push_bit 8 (ucast b :: 16 word)) = push_bit 8 (unat b)"
    by (simp only: unsigned_push_bit_eq unat_ucast_byte16 take_bit_nat_eq_self len16)
  then have "unat (Uint16 [a, b]) = unat a OR push_bit 8 (unat b)"
    by (simp add: Uint16_def unsigned_or_eq unat_ucast_byte16)
  also have "\<dots> = unat a + push_bit 8 (unat b)"
    by (rule unat_byte_or_shift) simp
  finally show ?thesis by (simp add: push_bit_eq_mult)
qed

lemma unat_ucast_byte32: "unat (ucast (a :: byte) :: 32 word) = unat a"
  using unsigned_less [of a, where 'a = nat]
  by (simp add: unsigned_ucast_eq take_bit_nat_eq_self)

lemma unat_shift_byte32:
  assumes "k \<le> 24"
  shows "unat (push_bit k (ucast (b :: byte) :: 32 word)) = push_bit k (unat b)"
proof -
  have "unat b < 2 ^ 8" using unsigned_less [of b, where 'a = nat] by simp
  then have "unat b * 2 ^ k < 2 ^ 8 * 2 ^ k" by simp
  also have "\<dots> = 2 ^ (8 + k)" by (simp add: power_add)
  also have "\<dots> \<le> (2 :: nat) ^ 32" using assms by (intro power_increasing) simp_all
  finally have "push_bit k (unat b) < (2 :: nat) ^ 32" by (simp add: push_bit_eq_mult)
  then show ?thesis
    by (simp only: unsigned_push_bit_eq unat_ucast_byte32 take_bit_nat_eq_self len32)
qed

lemma unat_Uint32:
  "unat (Uint32 [a, b, c, d]) = unat a + 256 * unat b + 65536 * unat c + 16777216 * unat d"
proof -
  have "unat (Uint32 [a, b, c, d]) =
      unat a OR push_bit 8 (unat b) OR push_bit 16 (unat c) OR push_bit 24 (unat d)"
    by (simp add: Uint32_def unsigned_or_eq unat_ucast_byte32 unat_shift_byte32)
  also have "\<dots> = unat a OR push_bit 8 (unat b OR push_bit 8 (unat c OR push_bit 8 (unat d)))"
    by (simp add: push_bit_or push_bit_push_bit or.assoc)
  also have "\<dots> = unat a + push_bit 8 (unat b + push_bit 8 (unat c + push_bit 8 (unat d)))"
    by (simp add: unat_byte_or_shift)
  finally show ?thesis
    by (simp add: push_bit_eq_mult algebra_simps)
qed

lemma ucast_Uint16: "(ucast (Uint16 [a, b]) :: goint) = of_nat (unat a + 256 * unat b)"
  by (simp only: unat_Uint16 [symmetric] of_nat_unat)

lemma ucast_Uint32:
  "(ucast (Uint32 [a, b, c, d]) :: goint)
     = of_nat (unat a + 256 * unat b + 65536 * unat c + 16777216 * unat d)"
  by (simp only: unat_Uint32 [symmetric] of_nat_unat)

lemma length_slice: "length (slice xs a b) = min (b - a) (length xs - a)"
  by (simp add: slice_def)

lemma length_headerBuffer [simp]: "length (headerBuffer content) = 44"
  by (simp add: headerBuffer_def)

lemma slice_headerBuffer:
  assumes "b \<le> 44" and "a < b" and "length s = b - a" and "0 \<notin> set s"
  shows "slice (headerBuffer c) a b = s \<longleftrightarrow> slice c a b = s"
proof (cases "b \<le> length c")
  case True
  then have "slice (headerBuffer c) a b = slice c a b"
    using assms(1,2) by (intro nth_equalityI) (auto simp: slice_def headerBuffer_def nth_append)
  then show ?thesis by simp
next
  case False
  let ?k = "max (length c) a - a"
  have k: "?k < b - a" using False assms(2) by auto
  have "slice (headerBuffer c) a b ! ?k = 0"
    using False assms(1,2) k by (auto simp: slice_def headerBuffer_def nth_append)
  moreover have "length (slice (headerBuffer c) a b) = b - a"
    using assms(1,2) by (simp add: slice_def)
  ultimately have "0 \<in> set (slice (headerBuffer c) a b)"
    using k by (metis nth_mem)
  then have l: "slice (headerBuffer c) a b \<noteq> s" using assms(4) by auto
  have "length (slice c a b) < b - a"
    using False assms(2) by (auto simp: slice_def)
  then have r: "slice c a b \<noteq> s" using assms(3) by auto
  from l r show ?thesis by simp
qed

lemma file_Read_nonempty:
  "content \<noteq> [] \<Longrightarrow>
     file_Read content 0 44 = Inr (headerBuffer content, min 44 (length content))"
  by (simp add: file_Read_def headerBuffer_def min_def)

lemma file_Read_empty: "0 < n \<Longrightarrow> file_Read [] off n = Inl EOF"
  by (simp add: file_Read_def)

lemma file_Read_not_invalid: "file_Read content off n \<noteq> Inl NotAValidWAVFile"
  by (simp add: file_Read_def Let_def)

lemma take2_drop: "a + 2 \<le> length h \<Longrightarrow> take 2 (drop a h) = [h ! a, h ! (a + 1)]"
  by (simp add: numeral_2_eq_2 take_Suc_conv_app_nth)

lemma take4_drop:
  "a + 4 \<le> length h \<Longrightarrow> take 4 (drop a h) = [h ! a, h ! (a + 1), h ! (a + 2), h ! (a + 3)]"
proof -
  assume a: "a + 4 \<le> length h"
  have "take 4 (drop a h) = take 2 (drop a h) @ take 2 (drop (a + 2) h)"
    using take_add [of 2 2 "drop a h"] by (simp add: add.commute)
  also have "\<dots> = [h ! a, h ! (a + 1), h ! (a + 2), h ! (a + 3)]"
    using a take2_drop [of a h] take2_drop [of "a + 2" h]
    by (simp add: add.assoc eval_nat_numeral)
  finally show ?thesis .
qed

lemma slice_nths:
  "length h = 44 \<Longrightarrow> slice h 22 24 = [h ! 22, h ! 23]"
  "length h = 44 \<Longrightarrow> slice h 24 28 = [h ! 24, h ! 25, h ! 26, h ! 27]"
  "length h = 44 \<Longrightarrow> slice h 40 44 = [h ! 40, h ! 41, h ! 42, h ! 43]"
  using take2_drop [of 22 h] take4_drop [of 24 h] take4_drop [of 40 h]
  by (simp_all add: slice_def)

lemma slice_update_outside:
  "i < a \<or> b \<le> i \<Longrightarrow> slice (xs[i := v]) a b = slice xs a b"
  by (auto simp: slice_def list_eq_iff_nth_eq)

lemma zero_notin_RIFF: "0 \<notin> set (str_bytes ''RIFF'')" "0 \<notin> set (str_bytes ''WAVE'')"
  by (simp_all add: str_bytes_def)

lemma parseHeader_cases:
  assumes "length h = 44"
  shows "parseHeader h =
           (if slice h 0 4 \<noteq> str_bytes ''RIFF'' \<or> slice h 8 12 \<noteq> str_bytes ''WAVE''
            then Inl NotAValidWAVFile
            else Inr (of_nat (unat (h ! 22) + 256 * unat (h ! 23)),
                      of_nat (unat (h ! 24) + 256 * unat (h ! 25) + 65536 * unat (h ! 26)
                              + 16777216 * unat (h ! 27)),
                      of_nat (unat (h ! 40) + 256 * unat (h ! 41) + 65536 * unat (h ! 42)
                              + 16777216 * unat (h ! 43))))"
  by (simp add: parseHeader_def slice_nths [OF assms] ucast_Uint16 ucast_Uint32)

lemma magic_headerBuffer:
  "slice (headerBuffer content) 0 4 = str_bytes ''RIFF''
     \<longleftrightarrow> slice content 0 4 = str_bytes ''RIFF''"
  "slice (headerBuffer content) 8 12 = str_bytes ''WAVE''
     \<longleftrightarrow> slice content 8 12 = str_bytes ''WAVE''"
  by (rule slice_headerBuffer; simp add: zero_notin_RIFF)+

lemma parseHeader_headerBuffer:
  "parseHeader (headerBuffer content) =
     (if slice content 0 4 \<noteq> str_bytes ''RIFF'' \<or> slice content 8 12 \<noteq> str_bytes ''WAVE''
      then Inl NotAValidWAVFile
      else Inr (of_nat (unat (headerBuffer content ! 22) + 256 * unat (headerBuffer content ! 23)),
                of_nat (unat (headerBuffer content ! 24) + 256 * unat (headerBuffer content ! 25)
                        + 65536 * unat (headerBuffer content ! 26)
                        + 16777216 * unat (headerBuffer content ! 27)),
                of_nat (unat (headerBuffer content ! 40) + 256 * unat (headerBuffer content ! 41)
                        + 65536 * unat (headerBuffer content ! 42)
                        + 16777216 * unat (headerBuffer content ! 43))))"
  by (simp only: parseHeader_cases [OF length_headerBuffer] magic_headerBuffer)

lemma readWAVData_invalid_iff:
  assumes "d p = Some content"
  shows "readWAVData d p = Inl NotAValidWAVFile
           \<longleftrightarrow> content \<noteq> [] \<and> (slice content 0 4 \<noteq> str_bytes ''RIFF''
                                 \<or> slice content 8 12 \<noteq> str_bytes ''WAVE'')"
proof (cases "content = []")
  case True
  then show ?thesis using assms by (simp add: readWAVData_def file_Read_empty)
next
  case False
  show ?thesis
    using assms False file_Read_not_invalid
    by (auto simp: readWAVData_def file_Read_nonempty parseHeader_headerBuffer
        split: sum.splits prod.splits)
qed

lemma readWAVData_result_fields:
  assumes "d p = Some content" and "readWAVData d p = Inr (S, sr, ch)"
  shows "ch = of_nat (unat (headerBuffer content ! 22) + 256 * unat (headerBuffer content ! 23))
         \<and> sr = of_nat (unat (headerBuffer content ! 24) + 256 * unat (headerBuffer content ! 25)
                        + 65536 * unat (headerBuffer content ! 26)
                        + 16777216 * unat (headerBuffer content ! 27))"
proof (cases "content = []")
  case True
  then show ?thesis using assms by (simp add: readWAVData_def file_Read_empty)
next
  case False
  show ?thesis
    using assms False
    by (auto simp: readWAVData_def file_Read_nonempty parseHeader_headerBuffer
        split: sum.splits prod.splits if_splits)
qed

lemma parseHeader_update:
  "28 \<le> i \<and> i < 36 \<Longrightarrow> parseHeader (h[i := b]) = parseHeader h"
  by (simp add: parseHeader_def slice_update_outside)

text \<open>
  Claim C3, as amended. \<^verbatim>\<open>readWAVData\<close> reads the first 44 bytes of the file into a
  zeroed 44-byte buffer, and that read fails with \<^verbatim>\<open>io.EOF\<close> on an empty file. So for a
  file that exists: decoding fails with \<^verbatim>\<open>"not a valid WAV file"\<close> exactly when the
  file is not empty and its bytes 0 to 4 are not \<^verbatim>\<open>RIFF\<close> or its bytes 8 to 12 are not
  \<^verbatim>\<open>WAVE\<close>; an empty file fails with \<^verbatim>\<open>io.EOF\<close>; on a file that is not empty the
  read fills the buffer with the first 44 bytes (zeros after a shorter file), and the
  magic check on the buffer is the magic check on the file and is the only error of the
  decoding step. When the magic check passes, the channel count is the 16-bit
  little-endian number at offset 22 of the buffer, the sample rate and the data size are
  the 32-bit little-endian numbers at offsets 24 and 40, these are the sample rate and the
  channel count \<^verbatim>\<open>readWAVData\<close> returns when it returns, and the bytes 28 to 35 (byte
  rate, block alignment and bits per sample) have no influence on the result.
\<close>

theorem readWAVData_magic:
  assumes "d p = Some content"
  shows "(readWAVData d p = Inl NotAValidWAVFile
            \<longleftrightarrow> content \<noteq> [] \<and> (slice content 0 4 \<noteq> str_bytes ''RIFF''
                                  \<or> slice content 8 12 \<noteq> str_bytes ''WAVE''))
         \<and> (content = [] \<longrightarrow> readWAVData d p = Inl EOF)
         \<and> (content \<noteq> [] \<longrightarrow>
              file_Read content 0 44 = Inr (headerBuffer content, min 44 (length content)))
         \<and> (parseHeader (headerBuffer content) = Inl NotAValidWAVFile
              \<longleftrightarrow> slice content 0 4 \<noteq> str_bytes ''RIFF'' \<or> slice content 8 12 \<noteq> str_bytes ''WAVE'')
         \<and> (\<forall>e. parseHeader (headerBuffer content) = Inl e \<longrightarrow> e = NotAValidWAVFile)
         \<and> (slice content 0 4 = str_bytes ''RIFF'' \<and> slice content 8 12 = str_bytes ''WAVE''
              \<longrightarrow> parseHeader (headerBuffer content) =
                    Inr (of_nat (unat (headerBuffer content ! 22)
                                 + 256 * unat (headerBuffer content ! 23)),
                         of_nat (unat (headerBuffer content ! 24)
                                 + 256 * unat (headerBuffer content ! 25)
                                 + 65536 * unat (headerBuffer content ! 26)
                                 + 16777216 * unat (headerBuffer content ! 27)),
                         of_nat (unat (headerBuffer content ! 40)
                                 + 256 * unat (headerBuffer content ! 41)
                                 + 65536 * unat (headerBuffer content ! 42)
                                 + 16777216 * unat (headerBuffer content ! 43))))
         \<and> (\<forall>S sr ch. readWAVData d p = Inr (S, sr, ch) \<longrightarrow>
               ch = of_nat (unat (headerBuffer content ! 22)
                            + 256 * unat (headerBuffer content ! 23))
               \<and> sr = of_nat (unat (headerBuffer content ! 24)
                              + 256 * unat (headerBuffer content ! 25)
                              + 65536 * unat (headerBuffer content ! 26)
                              + 16777216 * unat (headerBuffer content ! 27)))
         \<and> (\<forall>i b. 28 \<le> i \<and> i < 36 \<longrightarrow>
               parseHeader ((headerBuffer content)[i := b]) = parseHeader (headerBuffer content))"
proof -
  have 1: "readWAVData d p = Inl NotAValidWAVFile
            \<longleftrightarrow> content \<noteq> [] \<and> (slice content 0 4 \<noteq> str_bytes ''RIFF''
                                  \<or> slice content 8 12 \<noteq> str_bytes ''WAVE'')"
    by (rule readWAVData_invalid_iff [of d p content, OF assms])
  have 2: "content = [] \<longrightarrow> readWAVData d p = Inl EOF"
    using assms by (simp add: readWAVData_def file_Read_empty)
  have 3: "content \<noteq> [] \<longrightarrow>
              file_Read content 0 44 = Inr (headerBuffer content, min 44 (length content))"
    by (simp add: file_Read_nonempty)
  have 4: "parseHeader (headerBuffer content) = Inl NotAValidWAVFile
              \<longleftrightarrow> slice content 0 4 \<noteq> str_bytes ''RIFF'' \<or> slice content 8 12 \<noteq> str_bytes ''WAVE''"
    by (simp add: parseHeader_headerBuffer)
  have 5: "\<forall>e. parseHeader (headerBuffer content) = Inl e \<longrightarrow> e = NotAValidWAVFile"
    by (simp add: parseHeader_def)
  have 6: "slice content 0 4 = str_bytes ''RIFF'' \<and> slice content 8 12 = str_bytes ''WAVE''
              \<longrightarrow> parseHeader (headerBuffer content) =
                    Inr (of_nat (unat (headerBuffer content ! 22)
                                 + 256 * unat (headerBuffer content ! 23)),
                         of_nat (unat (headerBuffer content ! 24)
                                 + 256 * unat (headerBuffer content ! 25)
                                 + 65536 * unat (headerBuffer content ! 26)
                                 + 16777216 * unat (headerBuffer content ! 27)),
                         of_nat (unat (headerBuffer content ! 40)
                                 + 256 * unat (headerBuffer content ! 41)
                                 + 65536 * unat (headerBuffer content ! 42)
                                 + 16777216 * unat (headerBuffer content ! 43)))"
    by (simp add: parseHeader_headerBuffer)
  have 7: "\<forall>S sr ch. readWAVData d p = Inr (S, sr, ch) \<longrightarrow>
               ch = of_nat (unat (headerBuffer content ! 22)
                            + 256 * unat (headerBuffer content ! 23))
               \<and> sr = of_nat (unat (headerBuffer content ! 24)
                              + 256 * unat (headerBuffer content ! 25)
                              + 65536 * unat (headerBuffer content ! 26)
                              + 16777216 * unat (headerBuffer content ! 27))"
    using readWAVData_result_fields [of d p content, OF assms] by blast
  have 8: "\<forall>i b. 28 \<le> i \<and> i < 36 \<longrightarrow>
               parseHeader ((headerBuffer content)[i := b]) = parseHeader (headerBuffer content)"
    by (simp add: parseHeader_update)
  from 1 2 3 4 5 6 7 8 show ?thesis by blast
qed

theorem readWAVData_magic_witness:
  "[(''memos'', ''a.wav'') \<mapsto> wavHeader 44100 2 16 0] (''memos'', ''a.wav'')
     = Some (wavHeader 44100 2 16 0)
   \<and> slice (wavHeader 44100 2 16 0) 0 4 = str_bytes ''RIFF''
   \<and> slice (wavHeader 44100 2 16 0) 8 12 = str_bytes ''WAVE''
   \<and> readWAVData [(''memos'', ''a.wav'') \<mapsto> wavHeader 44100 2 16 0] (''memos'', ''a.wav'')
       \<noteq> Inl NotAValidWAVFile
   \<and> parseHeader (headerBuffer (wavHeader 44100 2 16 0)) = Inr (2, 44100, 0)
   \<and> [(''memos'', ''b.wav'') \<mapsto> str_bytes ''RIFX''] (''memos'', ''b.wav'')
       = Some (str_bytes ''RIFX'')
   \<and> slice (str_bytes ''RIFX'') 0 4 \<noteq> str_bytes ''RIFF''
   \<and> file_Read (str_bytes ''RIFX'') 0 44 = Inr (str_bytes ''RIFX'' @ replicate 40 0, 4)
   \<and> readWAVData [(''memos'', ''b.wav'') \<mapsto> str_bytes ''RIFX''] (''memos'', ''b.wav'')
       = Inl NotAValidWAVFile"
proof -
  let ?a = "wavHeader 44100 2 16 0" and ?b = "str_bytes ''RIFX''"
  have m: "slice ?a 0 4 = str_bytes ''RIFF''" "slice ?a 8 12 = str_bytes ''WAVE''" "?a \<noteq> []"
    by (simp_all add: wavHeader_def slice_def str_bytes_def)
  have hb: "headerBuffer ?a = ?a"
    by (simp add: headerBuffer_def)
  have f: "unat (?a ! 22) + 256 * unat (?a ! 23) = 2"
    "unat (?a ! 24) + 256 * unat (?a ! 25) + 65536 * unat (?a ! 26) + 16777216 * unat (?a ! 27)
       = 44100"
    "unat (?a ! 40) + 256 * unat (?a ! 41) + 65536 * unat (?a ! 42) + 16777216 * unat (?a ! 43)
       = 0"
    by (simp_all add: wavHeader_def str_bytes_def PutUint16_def PutUint32_def drop_bit_eq_div)
  have m': "slice ?b 0 4 \<noteq> str_bytes ''RIFF''" "?b \<noteq> []"
    by (simp_all add: slice_def str_bytes_def)
  have hb': "headerBuffer ?b = ?b @ replicate 40 0"
    by (simp add: headerBuffer_def)
  have a: "[(''memos'', ''a.wav'') \<mapsto> ?a] (''memos'', ''a.wav'') = Some ?a"
    and b: "[(''memos'', ''b.wav'') \<mapsto> ?b] (''memos'', ''b.wav'') = Some ?b"
    by simp_all
  show ?thesis
    using readWAVData_magic [of "[(''memos'', ''a.wav'') \<mapsto> ?a]" "(''memos'', ''a.wav'')" ?a, OF a]
      readWAVData_magic [of "[(''memos'', ''b.wav'') \<mapsto> ?b]" "(''memos'', ''b.wav'')" ?b, OF b]
      m m' a b
    by (simp add: hb hb' f)
qed

text \<open>
  Claim C3 as stated fails on the empty file: its first four bytes are not \<^verbatim>\<open>RIFF\<close>,
  and decoding fails with \<^verbatim>\<open>io.EOF\<close>, not with \<^verbatim>\<open>"not a valid WAV file"\<close>.
\<close>

theorem readWAVData_magic_counterexample:
  "slice ([] :: byte list) 0 4 \<noteq> str_bytes ''RIFF''
   \<and> readWAVData [(''memos'', ''empty.wav'') \<mapsto> []] (''memos'', ''empty.wav'') = Inl EOF
   \<and> readWAVData [(''memos'', ''empty.wav'') \<mapsto> []] (''memos'', ''empty.wav'')
        \<noteq> Inl NotAValidWAVFile"
  by (simp add: readWAVData_def file_Read_def slice_def str_bytes_def)

section \<open>Properties of the floating-point model\<close>

text \<open>
  Values that fix the rounding: the double nearest to \<open>7/10\<close> and to \<open>1/10\<close>, a tie
  that goes to the even neighbour in both directions (\<open>2^53 + 1\<close> down, \<open>2^53 + 3\<close> up),
  the displayed position at the cursor 88641, where the quotient and the product are both
  rounded, and the conversion to an integer, which drops the fraction on both sides of
  zero.
\<close>

lemma round_f64_examples:
  "round_f64 (7 / 10) = 3152519739159347 / 4503599627370496"
  "round_f64 (1 / 10) = 3602879701896397 / 36028797018963968"
  "round_f64 9007199254740993 = 9007199254740992"
  "round_f64 9007199254740995 = 9007199254740996"
  "round_f64 (- 9007199254740993) = - 9007199254740992"
  "round_f64 (10 * round_f64 (7 / 10)) = 7"
  "round_f64 (1 / 2) = 1 / 2"
  "go_trunc (round_f64 (round_f64 (float64 88641 / float64 44100) * 1000000000)) = 2009999999"
  by code_simp+

lemma go_trunc_examples:
  "go_trunc (3 / 2) = 1" "go_trunc (- 3 / 2) = - 1" "go_trunc (- 1 / 2) = 0" "go_trunc 7 = 7"
  by code_simp+

lemma bitlen_nonneg: "0 \<le> bitlen n"
  by (induction n rule: bitlen.induct) (subst bitlen.simps, simp)

lemma bitlen_1: "bitlen 1 = 1"
  by code_simp

lemma bitlen_bounds:
  "0 < n \<Longrightarrow> 2 ^ nat (bitlen n - 1) \<le> n \<and> n < 2 ^ nat (bitlen n)"
proof (induction n rule: bitlen.induct)
  case (1 n)
  show ?case
  proof (cases "n = 1")
    case True
    then show ?thesis by (simp add: bitlen_1)
  next
    case False
    with "1.prems" have h: "0 < n div 2" by simp
    define b where "b = bitlen (n div 2)"
    from "1.IH" h "1.prems"
    have ih: "2 ^ nat (b - 1) \<le> n div 2" "n div 2 < 2 ^ nat b"
      by (simp_all add: b_def)
    have bpos: "0 < b"
    proof (rule ccontr)
      assume "\<not> 0 < b"
      then have "nat b = 0" by simp
      with ih(2) h show False by simp
    qed
    have bn: "bitlen n = 1 + b"
      using "1.prems" by (subst bitlen.simps) (simp add: b_def)
    have e1: "nat (bitlen n - 1) = Suc (nat (b - 1))" and e2: "nat (bitlen n) = Suc (nat b)"
      using bpos bn by simp_all
    have "(2 :: int) ^ Suc (nat (b - 1)) \<le> 2 * (n div 2)" using ih(1) by simp
    also have "\<dots> \<le> n" by simp
    finally have l: "2 ^ nat (bitlen n - 1) \<le> n" by (simp only: e1)
    have "n < 2 * (n div 2) + 2" by simp
    also have "\<dots> \<le> 2 * 2 ^ nat b" using ih(2) by simp
    finally have u: "n < 2 ^ nat (bitlen n)" by (simp only: e2 power_Suc)
    from l u show ?thesis ..
  qed
qed

lemma rne_of_int: "rne (of_int m) = m"
  by (simp add: rne_def)

text \<open>An integer of at most 53 bits is a double: its conversion is exact.\<close>

lemma float64_exact:
  assumes "\<bar>k\<bar> < 2 ^ 53"
  shows "float64 k = of_int k"
proof (cases "k = 0")
  case True
  then show ?thesis by (simp add: float64_def round_f64_def)
next
  case False
  define n where "n = \<bar>k\<bar>"
  define b where "b = bitlen n"
  have npos: "0 < n" using False by (simp add: n_def)
  from bitlen_bounds [OF npos]
  have lo: "2 ^ nat (b - 1) \<le> n" and hi: "n < 2 ^ nat b" by (simp_all add: b_def)
  have bpos: "0 < b"
  proof (rule ccontr)
    assume "\<not> 0 < b"
    then have "nat b = 0" by simp
    with hi npos show False by simp
  qed
  have lt: "(2 :: int) ^ nat (b - 1) < 2 ^ 53" using lo assms by (simp add: n_def)
  have "nat (b - 1) < 53"
  proof (rule power_less_imp_less_exp)
    show "(1 :: int) < 2" by simp
    show "(2 :: int) ^ nat (b - 1) < 2 ^ 53" by (rule lt)
  qed
  then have b53: "b \<le> 53" by simp
  have "(of_int (2 ^ nat (b - 1)) :: rat) \<le> of_int n" using lo by (simp only: of_int_le_iff)
  then have p: "pow2 (b - 1) \<le> of_int n" using bpos by (simp add: pow2_def)
  have il: "ilog2 (of_int n) = b - 1"
    using p by (simp add: ilog2_def quotient_of_int bitlen_1 b_def)
  define j where "j = nat (53 - b)"
  have ulp: "pow2 (b - 1 - 52) = 1 / 2 ^ j"
    using b53 by (cases "b = 53") (simp_all add: pow2_def j_def)
  have ab: "\<bar>(of_int k :: rat)\<bar> = of_int n" by (simp add: n_def)
  have mx: "max (b - 1) (- 1022) = b - 1" using bpos by simp
  have q: "(of_int k :: rat) / (1 / 2 ^ j) = of_int (k * 2 ^ j)" by simp
  have "round_f64 (of_int k) = of_int (rne (of_int k / (1 / 2 ^ j))) * (1 / 2 ^ j)"
    using False by (simp only: round_f64_def ab il mx ulp Let_def of_int_eq_0_iff if_False)
  also have "\<dots> = of_int k"
    by (simp only: q rne_of_int) simp
  finally show ?thesis by (simp only: float64_def)
qed

lemma float64_sample: "float64 (sint (s :: 16 word)) = of_int (sint s)"
proof -
  have "- (2 ^ 15) \<le> sint s" "sint s < 2 ^ 15"
    using sint_ge [of s] sint_lt [of s] by simp_all
  then have "\<bar>sint s\<bar> < 2 ^ 53" by simp
  then show ?thesis by (rule float64_exact)
qed

lemma float64_nat: "n < 2 ^ 53 \<Longrightarrow> float64 (int n) = of_nat n"
  using float64_exact [of "int n"] by simp

section \<open>Properties of playback\<close>

lemma clampSample_max_min: "clampSample x = max (- 32768) (min 32767 x)"
  by (simp add: clampSample_def max_def min_def)

lemma go_trunc_range:
  assumes "- 32768 \<le> x" and "x \<le> 32767"
  shows "- 32768 \<le> go_trunc x \<and> go_trunc x \<le> 32767"
  using assms unfolding go_trunc_def
  by (auto simp: le_floor_iff floor_le_iff ceiling_le_iff le_ceiling_iff)

lemma sint_word16_of_int:
  "- 32768 \<le> k \<Longrightarrow> k \<le> 32767 \<Longrightarrow> sint (word_of_int k :: 16 word) = k"
  by (simp add: sint_sbintrunc' signed_take_bit_int_eq_self_iff)

lemma sint_scaleSample:
  "sint (scaleSample s v)
     = go_trunc (max (- 32768) (min 32767 (round_f64 (of_int (sint s) * v))))"
proof -
  let ?x = "max (- 32768) (min 32767 (round_f64 (of_int (sint s) * v)))"
  have "- 32768 \<le> ?x" "?x \<le> 32767" by simp_all
  from go_trunc_range [OF this] show ?thesis
    by (simp only: scaleSample_def clampSample_max_min sint_word16_of_int float64_sample)
qed

lemma fillOutput_spec:
  "fillOutput data v pos out = (out', pos') \<Longrightarrow>
     length out' = length out \<and> pos' = pos + min (length out) (length data - pos) \<and>
     (\<forall>i<length out. out' ! i =
        (if pos + i < length data then scaleSample (data ! (pos + i)) v else 0))"
proof (induction out arbitrary: pos out' pos')
  case Nil
  then show ?case by simp
next
  case (Cons x out)
  show ?case
  proof (cases "pos < length data")
    case True
    obtain r q where rq: "fillOutput data v (pos + 1) out = (r, q)" by fastforce
    from Cons.IH [OF rq] Cons.prems True rq show ?thesis
      by (auto simp: nth_Cons' less_Suc_eq_0_disj)
  next
    case False
    obtain r q where rq: "fillOutput data v pos out = (r, q)" by fastforce
    from Cons.IH [OF rq] Cons.prems False rq show ?thesis
      by (auto simp: nth_Cons' less_Suc_eq_0_disj)
  qed
qed

lemma scaleSample_examples:
  "scaleSample 100 (1 / 2) = 50" "scaleSample (- 200) (1 / 2) = - 100"
  "scaleSample 300 (1 / 2) = 150" "scaleSample 32000 (3 / 2) = 32767"
  "scaleSample (- 32000) (3 / 2) = - 32768"
  "scaleSample 10 (3152519739159347 / 4503599627370496) = 7" "scaleSample (- 3) (1 / 2) = - 1"
  by code_simp+

lemma fill_example:
  "processAudioOutput [0, 0, 0, 0, 0] (loaded [100, - 200, 300] 0 (1 / 2))
     = ([50, - 100, 150, 0, 0], loaded [100, - 200, 300] 3 (1 / 2))"
  by (simp add: processAudioOutput_def loaded_def initialModel_def defaultConfig_def
      scaleSample_examples)

lemma clamp_example:
  "fst (processAudioOutput [0] (loaded [32000] 0 (3 / 2))) = [32767]"
  "fst (processAudioOutput [0] (loaded [10] 0 (3152519739159347 / 4503599627370496))) = [7]"
  "fst (processAudioOutput [0] (loaded [- 3] 0 (1 / 2))) = [- 1]"
  by (simp_all add: processAudioOutput_def loaded_def initialModel_def defaultConfig_def
      scaleSample_examples)

text \<open>
  Claim C4. A fill request on a session with decoded samples \<open>data\<close> and the cursor at
  \<open>playbackPos dev\<close> overwrites every slot of the output buffer: slot \<open>i\<close> holds the
  sample at \<open>cursor + i\<close> times the volume (the \<^verbatim>\<open>float64\<close> product, that is the exact
  product rounded to the nearest double), clamped to \<open>[-32768, 32767]\<close> and converted to
  \<^verbatim>\<open>int16\<close>, which drops the fraction, while that index is inside \<open>data\<close>, and 0 past
  the end; the cursor advances by one for every slot that received a sample. This holds
  for every volume, in particular in \<open>[0, 1]\<close>. The samples \<open>[100, -200, 300]\<close> at volume
  \<open>1/2\<close> with five slots give \<open>[50, -100, 150, 0, 0]\<close> and the cursor 3, and the sample
  32000 at volume \<open>3/2\<close> gives 32767. Further, the sample 10 at the volume 0.7 of Go (the
  double nearest to \<open>7/10\<close>, which is \<open>3152519739159347 / 2^52\<close>) gives 7, where the
  exact product is below 7, and the sample \<open>-3\<close> at volume \<open>1/2\<close> gives \<open>-1\<close>.
\<close>

theorem processAudioOutput_fill:
  assumes "audioDevice w = Some dev" and "playbackData dev = Some data"
    and "processAudioOutput out w = (out', w')"
  shows "length out' = length out
    \<and> (\<forall>i<length out.
          sint (out' ! i) =
            (if playbackPos dev + i < length data
             then go_trunc (max (- 32768) (min 32767
                    (round_f64 (of_int (sint (data ! (playbackPos dev + i)))
                                * Volume (config w)))))
             else 0))
    \<and> w' = w\<lparr>audioDevice :=
               Some (dev\<lparr>playbackPos :=
                          playbackPos dev + min (length out) (length data - playbackPos dev)\<rparr>)\<rparr>
    \<and> processAudioOutput [0, 0, 0, 0, 0] (loaded [100, - 200, 300] 0 (1 / 2))
        = ([50, - 100, 150, 0, 0], loaded [100, - 200, 300] 3 (1 / 2))
    \<and> map sint (fst (processAudioOutput [0] (loaded [32000] 0 (3 / 2)))) = [32767]
    \<and> map sint (fst (processAudioOutput [0] (loaded [10] 0 (3152519739159347 / 4503599627370496)))) = [7]
    \<and> map sint (fst (processAudioOutput [0] (loaded [- 3] 0 (1 / 2)))) = [- 1]"
proof -
  obtain r q where rq: "fillOutput data (Volume (config w)) (playbackPos dev) out = (r, q)"
    by fastforce
  from assms rq have o: "out' = r" and w': "w' = w\<lparr>audioDevice := Some (dev\<lparr>playbackPos := q\<rparr>)\<rparr>"
    by (simp_all add: processAudioOutput_def)
  from fillOutput_spec [OF rq]
  have 1: "length r = length out"
    and 2: "q = playbackPos dev + min (length out) (length data - playbackPos dev)"
    and 3: "\<forall>i<length out. r ! i =
        (if playbackPos dev + i < length data
         then scaleSample (data ! (playbackPos dev + i)) (Volume (config w)) else 0)"
    by simp_all
  have 4: "\<forall>i<length out.
          sint (out' ! i) =
            (if playbackPos dev + i < length data
             then go_trunc (max (- 32768) (min 32767
                    (round_f64 (of_int (sint (data ! (playbackPos dev + i)))
                                * Volume (config w)))))
             else 0)"
    using 3 by (simp add: o sint_scaleSample)
  have 5: "w' = w\<lparr>audioDevice :=
               Some (dev\<lparr>playbackPos :=
                          playbackPos dev + min (length out) (length data - playbackPos dev)\<rparr>)\<rparr>"
    using 2 by (simp add: w')
  have 6: "length out' = length out" using 1 by (simp add: o)
  have 7: "map sint (fst (processAudioOutput [0] (loaded [32000] 0 (3 / 2)))) = [32767]"
    "map sint (fst (processAudioOutput [0] (loaded [10] 0 (3152519739159347 / 4503599627370496)))) = [7]"
    "map sint (fst (processAudioOutput [0] (loaded [- 3] 0 (1 / 2)))) = [- 1]"
    by (simp_all add: clamp_example)
  from 6 4 5 fill_example 7 show ?thesis by blast
qed

theorem processAudioOutput_fill_witness:
  "audioDevice (loaded [100, - 200, 300] 1 (1 / 2))
     = Some \<lparr>stream = None, recordingFile = None, playbackData = Some [100, - 200, 300],
             playbackPos = 1\<rparr>
   \<and> processAudioOutput [7, 7, 7] (loaded [100, - 200, 300] 1 (1 / 2))
       = ([- 100, 150, 0], loaded [100, - 200, 300] 3 (1 / 2))
   \<and> length [- 100, 150, 0 :: 16 word] = length [7, 7, 7 :: 16 word]
   \<and> sint ([- 100, 150, 0 :: 16 word] ! 0)
       = go_trunc (max (- 32768) (min 32767 (round_f64 (of_int (sint (- 200 :: 16 word)) * (1 / 2)))))
   \<and> sint ([- 100, 150, 0 :: 16 word] ! 2) = 0"
proof -
  let ?dev = "\<lparr>stream = None, recordingFile = None, playbackData = Some [100, - 200, 300 :: 16 word],
             playbackPos = 1\<rparr>"
  have a: "audioDevice (loaded [100, - 200, 300] 1 (1 / 2)) = Some ?dev"
    by (simp add: loaded_def)
  have b: "playbackData ?dev = Some [100, - 200, 300]"
    by simp
  have p: "processAudioOutput [7, 7, 7] (loaded [100, - 200, 300] 1 (1 / 2))
       = ([- 100, 150, 0], loaded [100, - 200, 300] 3 (1 / 2))"
    by (simp add: processAudioOutput_def loaded_def initialModel_def defaultConfig_def
      scaleSample_examples)
  have all: "\<forall>i<length [7, 7, 7 :: 16 word].
          sint ([- 100, 150, 0 :: 16 word] ! i) =
            (if playbackPos ?dev + i < length [100, - 200, 300 :: 16 word]
             then go_trunc (max (- 32768) (min 32767
                    (round_f64 (of_int (sint ([100, - 200, 300 :: 16 word] ! (playbackPos ?dev + i)))
                                * Volume (config (loaded [100, - 200, 300] 1 (1 / 2)))))))
             else 0)"
    using processAudioOutput_fill [OF a b p] by blast
  have "sint ([- 100, 150, 0 :: 16 word] ! 0)
       = go_trunc (max (- 32768) (min 32767 (round_f64 (of_int (sint (- 200 :: 16 word)) * (1 / 2)))))"
    using all [rule_format, of 0] by (simp add: loaded_def initialModel_def defaultConfig_def)
  moreover have "sint ([- 100, 150, 0 :: 16 word] ! 2) = 0"
    using all [rule_format, of 2] by simp
  ultimately show ?thesis using a p by simp
qed

section \<open>Properties of playback start and of the timer tick\<close>

lemma ucast16_ucast64:
  fixes w :: goint
  assumes "uint w < 2 ^ 16"
  shows "(ucast (ucast w :: 16 word) :: goint) = w"
proof -
  have "(ucast (ucast w :: 16 word) :: goint) = take_bit 16 w"
    by (rule bit_word_eqI) (auto simp: bit_simps)
  also have "\<dots> = w"
    using assms by (intro word_uint_eqI) (simp add: unsigned_take_bit_eq take_bit_int_eq_self)
  finally show ?thesis .
qed

lemma parseHeader_wavHeader:
  assumes "uint sr < 2 ^ 32" and "uint ch < 2 ^ 16" and "n < 2 ^ 32"
  shows "parseHeader (wavHeader sr ch bits (of_nat n)) = Inr (ch, sr, of_nat n)"
proof -
  have "uint (of_nat n :: goint) < 2 ^ 32"
    using assms(3) uint_of_nat_goint [of n] by simp
  then show ?thesis
    using assms(1,2) by (simp add: parseHeader_wavHeader_raw ucast32_ucast64 ucast16_ucast64)
qed

lemma file_Read_short:
  "length h = 44 \<Longrightarrow> b \<noteq> [] \<Longrightarrow> length b \<le> n \<Longrightarrow> length b \<le> 1073741824 \<Longrightarrow>
     file_Read (h @ b) 44 n = Inr (b @ replicate (n - length b) 0, 44 + length b)"
  by (cases b) (auto simp: file_Read_def)

lemma file_Read_none:
  "length h = 44 \<Longrightarrow> 0 < n \<Longrightarrow> file_Read h 44 n = Inl EOF"
  by (simp add: file_Read_def)

text \<open>
  What \<^verbatim>\<open>readWAVData\<close> returns for a well-formed header followed by a payload \<open>b\<close>
  that is not empty, not longer than the declared size \<open>n\<close> and not longer than one read
  transfers: the payload padded with zeros to \<open>n\<close> bytes, and no error, whether or not
  \<open>b\<close> is shorter than \<open>n\<close>.
\<close>

lemma readWAVData_short:
  assumes "uint sr < 2 ^ 32" and "uint ch < 2 ^ 16" and "n < 2 ^ 32"
    and "b \<noteq> []" and "length b \<le> n" and "length b \<le> 1073741824"
    and "d p = Some (wavHeader sr ch bits (of_nat n) @ b)"
  shows "readWAVData d p = Inr (bytesToSamples (b @ replicate (n - length b) 0), sr, ch)"
proof -
  have "unat (of_nat n :: goint) = n"
    using assms(3) by (intro unat_of_nat_goint) simp
  then show ?thesis
    using assms
    by (simp add: readWAVData_def file_Read_header file_Read_short parseHeader_wavHeader)
qed

lemma readWAVData_no_payload:
  assumes "uint sr < 2 ^ 32" and "uint ch < 2 ^ 16" and "n < 2 ^ 32" and "0 < n"
    and "d p = Some (wavHeader sr ch bits (of_nat n))"
  shows "readWAVData d p = Inl EOF"
proof -
  have "unat (of_nat n :: goint) = n"
    using assms(3) by (intro unat_of_nat_goint) simp
  then show ?thesis
    using assms file_Read_header [of "wavHeader sr ch bits (of_nat n)" "[]"]
    by (simp add: readWAVData_def file_Read_none parseHeader_wavHeader)
qed

lemma padded_example: "bytesToSamples (samplesToBytes [1, 2] @ replicate (8 - 4) 0) = [1, 2, 0, 0]"
  by code_simp

lemma truncated_read:
  "readWAVData [(''memos'', ''a.wav'') \<mapsto> wavHeader 44100 1 16 (of_nat 8) @ samplesToBytes [1, 2]]
     (''memos'', ''a.wav'') = Inr ([1, 2, 0, 0], 44100, 1)"
proof -
  have "readWAVData [(''memos'', ''a.wav'') \<mapsto> wavHeader 44100 1 16 (of_nat 8) @ samplesToBytes [1, 2]]
     (''memos'', ''a.wav'')
     = Inr (bytesToSamples (samplesToBytes [1, 2] @ replicate (8 - length (samplesToBytes [1, 2])) 0),
            44100, 1)"
    by (rule readWAVData_short) (simp_all add: length_samplesToBytes samplesToBytes_def PutUint16_def)
  then show ?thesis
    using padded_example by (simp add: length_samplesToBytes)
qed

lemma startPlayback_ok:
  assumes "memos w \<noteq> []" and "selectedIdx w < length (memos w)"
    and "readWAVData (disk w) (MemosPath (config w), Filename (memos w ! selectedIdx w))
           = Inr (audioData, sampleRate, channels)"
    and "InitializeOk env"
    and "selectDevice env (OutputDevice (config w)) (DefaultOutputDevice env) = Some dev"
    and "OpenStreamOk env" and "StreamStartOk env"
  shows "startPlayback env w =
     Some (w\<lparr>audioDevice :=
               Some \<lparr>stream = Some \<lparr>streamSampleRate = float64 (sint sampleRate),
                                    streamChannels = channels, FramesPerBuffer = 1024\<rparr>,
                     recordingFile = None, playbackData = Some audioData, playbackPos = 0\<rparr>,
             paCalls := paCalls w @ [Initialize, OpenStream, StreamStart],
             playing := True, state := StatePlaying, displayPos := 0, lastUpdate := Now env\<rparr>)"
  using assms by (simp add: startPlayback_def pa_def Let_def)

lemma startPlayback_unreadable:
  assumes "memos w \<noteq> []" and "selectedIdx w < length (memos w)"
    and "readWAVData (disk w) (MemosPath (config w), Filename (memos w ! selectedIdx w)) = Inl e"
  shows "startPlayback env w = Some w"
  using assms by (simp add: startPlayback_def)

text \<open>
  Claim C6, evaluated at a truncated file: the header declares 8 bytes of payload and 4
  follow. \<^verbatim>\<open>readWAVData\<close> checks the error of its single \<^verbatim>\<open>file.Read\<close>, which is
  \<^verbatim>\<open>io.EOF\<close> only when no payload byte is left (lemma \<open>readWAVData_no_payload\<close>); here
  the read is short but succeeds, the missing samples are zeros, no error is returned, and
  \<^verbatim>\<open>startPlayback\<close> creates the session and sets \<open>playing\<close>.
\<close>

theorem startPlayback_truncated_file:
  "readWAVData [(''memos'', ''a.wav'') \<mapsto> wavHeader 44100 1 16 8 @ samplesToBytes [1, 2]]
     (''memos'', ''a.wav'') = Inr ([1, 2, 0, 0], 44100, 1)
   \<and> map_option (\<lambda>w. (playing w, state w, map_option playbackData (audioDevice w)))
       (startPlayback (allOk [] 0)
          (initialModel (defaultConfig ''memos'') [memoOf ''a.wav''] 0
             [(''memos'', ''a.wav'') \<mapsto> wavHeader 44100 1 16 8 @ samplesToBytes [1, 2]]))
     = Some (True, StatePlaying, Some (Some [1, 2, 0, 0]))"
proof -
  let ?w = "initialModel (defaultConfig ''memos'') [memoOf ''a.wav''] 0
             [(''memos'', ''a.wav'') \<mapsto> wavHeader 44100 1 16 8 @ samplesToBytes [1, 2]]"
  have r: "readWAVData [(''memos'', ''a.wav'') \<mapsto> wavHeader 44100 1 16 8 @ samplesToBytes [1, 2]]
     (''memos'', ''a.wav'') = Inr ([1, 2, 0, 0], 44100, 1)"
    using truncated_read by simp
  have "startPlayback (allOk [] 0) ?w = Some (?w\<lparr>audioDevice :=
               Some \<lparr>stream = Some \<lparr>streamSampleRate = float64 (sint (44100 :: goint)),
                                    streamChannels = 1, FramesPerBuffer = 1024\<rparr>,
                     recordingFile = None, playbackData = Some [1, 2, 0, 0], playbackPos = 0\<rparr>,
             paCalls := paCalls ?w @ [Initialize, OpenStream, StreamStart],
             playing := True, state := StatePlaying, displayPos := 0, lastUpdate := Now (allOk [] 0)\<rparr>)"
    by (rule startPlayback_ok)
       (simp_all add: initialModel_def defaultConfig_def memoOf_def allOk_def selectDevice_def r)
  then show ?thesis using r by simp
qed

lemma tick_idle:
  "\<not> playing w \<Longrightarrow>
     \<not> playing (Update_tickMsg t w) \<and> paCalls (Update_tickMsg t w) = paCalls w
     \<and> audioDevice (Update_tickMsg t w) = audioDevice w"
  by (simp add: Update_tickMsg_def Let_def split: option.splits)

lemma ticks_idle:
  "\<not> playing w \<Longrightarrow> \<not> playing (ticks ts w) \<and> paCalls (ticks ts w) = paCalls w"
proof (induction ts arbitrary: w)
  case Nil
  then show ?case by (simp add: ticks_def)
next
  case (Cons t ts)
  from tick_idle [OF Cons.prems, of t]
  have "\<not> playing (Update_tickMsg t w)" and c: "paCalls (Update_tickMsg t w) = paCalls w"
    by simp_all
  from Cons.IH [OF this(1)] c show ?case by (simp add: ticks_def)
qed

lemma tick_at_end:
  assumes "playing w" and "audioDevice w = Some dev" and "playbackData dev = Some data"
    and "length data \<le> playbackPos dev"
  shows "\<not> playing (Update_tickMsg now w) \<and> state (Update_tickMsg now w) = StateViewing
    \<and> audioDevice (Update_tickMsg now w) = None
    \<and> paCalls (Update_tickMsg now w) =
        paCalls w @ (case stream dev of None \<Rightarrow> [] | Some s \<Rightarrow> [StreamStop, StreamClose]) @ [Terminate]"
  using assms
  by (simp add: Update_tickMsg_def stopPlayback_def pa_def Let_def split: option.splits)

text \<open>
  Claim C9. When a tick finds the model playing with the cursor at or past the end of the
  decoded samples, it makes the calls of one \<^verbatim>\<open>stopPlayback\<close> (stop and close of the
  stream if there is one, then \<^verbatim>\<open>Terminate\<close>) and leaves the model not playing, in
  state \<open>StateViewing\<close> and without audio device; whatever ticks follow, no further call
  is made and the model stays not playing.
\<close>

theorem tick_stops_once:
  assumes "playing w" and "audioDevice w = Some dev" and "playbackData dev = Some data"
    and "length data \<le> playbackPos dev"
  shows "\<not> playing (Update_tickMsg now w) \<and> state (Update_tickMsg now w) = StateViewing
    \<and> audioDevice (Update_tickMsg now w) = None
    \<and> paCalls (Update_tickMsg now w) =
        paCalls w @ (case stream dev of None \<Rightarrow> [] | Some s \<Rightarrow> [StreamStop, StreamClose]) @ [Terminate]
    \<and> (\<forall>ts. \<not> playing (ticks ts (Update_tickMsg now w))
           \<and> paCalls (ticks ts (Update_tickMsg now w)) = paCalls (Update_tickMsg now w))"
  using tick_at_end [OF assms, of now] ticks_idle [of "Update_tickMsg now w"] by simp

lemma tick_position:
  assumes "playing w" and "audioDevice w = Some dev" and "playbackData dev = Some data"
    and "playbackPos dev < length data"
  shows "displayPos (Update_tickMsg now w)
           = go_trunc (round_f64 (round_f64 (float64 (int (playbackPos dev)) / float64 44100)
                                  * 1000000000))"
  using assms
  by (simp add: Update_tickMsg_def samplesPerSecond_def Let_def split: option.splits)

theorem tick_stops_once_witness:
  "playing ((loaded [1, 2] 2 1)\<lparr>playing := True\<rparr>)
   \<and> audioDevice ((loaded [1, 2] 2 1)\<lparr>playing := True\<rparr>)
       = Some \<lparr>stream = None, recordingFile = None, playbackData = Some [1, 2], playbackPos = 2\<rparr>
   \<and> length [1, 2 :: 16 word] \<le> 2
   \<and> \<not> playing (Update_tickMsg 100 ((loaded [1, 2] 2 1)\<lparr>playing := True\<rparr>))
   \<and> paCalls (Update_tickMsg 100 ((loaded [1, 2] 2 1)\<lparr>playing := True\<rparr>)) = [Terminate]
   \<and> paCalls (ticks [200, 300] (Update_tickMsg 100 ((loaded [1, 2] 2 1)\<lparr>playing := True\<rparr>)))
       = [Terminate]"
proof -
  let ?w = "(loaded [1, 2] 2 1)\<lparr>playing := True\<rparr>"
  let ?d = "\<lparr>stream = None, recordingFile = None, playbackData = Some [1, 2 :: 16 word],
            playbackPos = 2\<rparr>"
  have a: "playing ?w" by simp
  have b: "audioDevice ?w = Some ?d" by (simp add: loaded_def)
  have c: "playbackData ?d = Some [1, 2]" by simp
  have d: "length [1, 2 :: 16 word] \<le> playbackPos ?d" by simp
  have e: "paCalls ?w = []" by (simp add: loaded_def initialModel_def)
  from tick_stops_once [OF a b c d, of 100] a b e show ?thesis
    by simp
qed

lemma float64_rates:
  "float64 (sint (22050 :: goint)) = 22050" "float64 (sint (44100 :: goint)) = 44100"
  "float64 22050 = 22050" "float64 44100 = 44100"
  by code_simp+

text \<open>
  Claim C5, evaluated on a file recorded at 22050 Hz: \<^verbatim>\<open>startPlayback\<close> opens the
  stream at the file's 22050 Hz, a fill request of two slots moves the cursor to 2, and
  the next tick displays 45351 ns, which is 2 / 44100 s, the constant
  \<^verbatim>\<open>samplesPerSecond\<close> of the tick handler. The cursor divided by the file's sample
  rate is 2 / 22050 s, that is 90702 ns.
\<close>

theorem tick_position_ignores_file_rate:
  "startPlayback (allOk [] 0)
     (initialModel (defaultConfig ''memos'') [memoOf ''a.wav''] 0
        [(''memos'', ''a.wav'') \<mapsto> wavHeader 22050 1 16 8 @ samplesToBytes [1, 2, 3, 4]])
   = Some ((initialModel (defaultConfig ''memos'') [memoOf ''a.wav''] 0
        [(''memos'', ''a.wav'') \<mapsto> wavHeader 22050 1 16 8 @ samplesToBytes [1, 2, 3, 4]])
       \<lparr>audioDevice :=
          Some \<lparr>stream = Some \<lparr>streamSampleRate = 22050, streamChannels = 1,
                               FramesPerBuffer = 1024\<rparr>,
                recordingFile = None, playbackData = Some [1, 2, 3, 4], playbackPos = 0\<rparr>,
        paCalls := [Initialize, OpenStream, StreamStart],
        playing := True, state := StatePlaying, displayPos := 0, lastUpdate := 0\<rparr>)
   \<and> map_option
        (\<lambda>w. let w' = snd (processAudioOutput [0, 0] w)
             in (map_option playbackPos (audioDevice w'), displayPos (Update_tickMsg 100 w')))
        (startPlayback (allOk [] 0)
          (initialModel (defaultConfig ''memos'') [memoOf ''a.wav''] 0
            [(''memos'', ''a.wav'') \<mapsto> wavHeader 22050 1 16 8 @ samplesToBytes [1, 2, 3, 4]]))
      = Some (Some 2, 45351)
   \<and> go_trunc (2 / 22050 * 1000000000) = 90702"
proof -
  let ?d = "[(''memos'', ''a.wav'') \<mapsto> wavHeader 22050 1 16 8 @ samplesToBytes [1, 2, 3, 4 :: 16 word]]"
  let ?w = "initialModel (defaultConfig ''memos'') [memoOf ''a.wav''] 0 ?d"
  let ?dev = "\<lparr>stream = Some \<lparr>streamSampleRate = 22050, streamChannels = 1,
                               FramesPerBuffer = 1024\<rparr>,
                recordingFile = None, playbackData = Some [1, 2, 3, 4 :: 16 word], playbackPos = 0\<rparr>"
  let ?w1 = "?w\<lparr>audioDevice := Some ?dev,
        paCalls := [Initialize, OpenStream, StreamStart],
        playing := True, state := StatePlaying, displayPos := 0, lastUpdate := 0\<rparr>"
  have "readWAVData ?d (''memos'', ''a.wav'')
      = Inr (bytesToSamples (samplesToBytes [1, 2, 3, 4]
               @ replicate (8 - length (samplesToBytes [1, 2, 3, 4 :: 16 word])) 0), 22050, 1)"
    using readWAVData_short [of 22050 1 8 "samplesToBytes [1, 2, 3, 4]" ?d "(''memos'', ''a.wav'')" 16]
    by (simp add: length_samplesToBytes samplesToBytes_def PutUint16_def)
  then have r: "readWAVData ?d (''memos'', ''a.wav'') = Inr ([1, 2, 3, 4], 22050, 1)"
    by (simp add: length_samplesToBytes bytesToSamples_samplesToBytes)
  have "startPlayback (allOk [] 0) ?w = Some (?w\<lparr>audioDevice :=
               Some \<lparr>stream = Some \<lparr>streamSampleRate = float64 (sint (22050 :: goint)),
                                    streamChannels = 1, FramesPerBuffer = 1024\<rparr>,
                     recordingFile = None, playbackData = Some [1, 2, 3, 4], playbackPos = 0\<rparr>,
             paCalls := paCalls ?w @ [Initialize, OpenStream, StreamStart],
             playing := True, state := StatePlaying, displayPos := 0, lastUpdate := Now (allOk [] 0)\<rparr>)"
    by (rule startPlayback_ok)
       (simp_all add: initialModel_def defaultConfig_def memoOf_def allOk_def selectDevice_def r)
  then have s: "startPlayback (allOk [] 0) ?w = Some ?w1"
    by (simp add: initialModel_def allOk_def float64_rates)
  have p: "audioDevice (snd (processAudioOutput [0, 0] ?w1)) = Some (?dev\<lparr>playbackPos := 2\<rparr>)"
    "playing (snd (processAudioOutput [0, 0] ?w1))"
    by (simp_all add: processAudioOutput_def initialModel_def)
  have t: "displayPos (Update_tickMsg 100 (snd (processAudioOutput [0, 0] ?w1)))
      = go_trunc (round_f64 (round_f64 (float64 (int (playbackPos (?dev\<lparr>playbackPos := 2\<rparr>)))
                                        / float64 44100) * 1000000000))"
  proof (rule tick_position [OF p(2) p(1)])
    show "playbackData (?dev\<lparr>playbackPos := 2\<rparr>) = Some [1, 2, 3, 4]" by simp
    show "playbackPos (?dev\<lparr>playbackPos := 2\<rparr>) < length [1, 2, 3, 4 :: 16 word]" by simp
  qed
  have g: "go_trunc (round_f64 (round_f64 (float64 2 / float64 44100) * 1000000000)) = 45351"
    "go_trunc (2 / 22050 * 1000000000) = 90702"
    by code_simp+
  show ?thesis
    using s p t g by (simp add: Let_def)
qed

section \<open>Properties of recording\<close>

lemma writeAt_end: "writeAt c (length c) bs = c @ bs"
  by (simp add: writeAt_def)

lemma writeAt_patch:
  "44 \<le> length c \<Longrightarrow> length bs = 4 \<Longrightarrow> writeAt c 40 bs = take 40 c @ bs @ drop 44 c"
  by (simp add: writeAt_def)

lemma generateFilename_nonempty: "generateFilename env f \<noteq> []"
  by (simp add: generateFilename_def)

lemma generateFilename_not_metadata: "generateFilename env f \<noteq> ''metadata.json''"
  by (simp add: generateFilename_def)

lemma startRecording_ok:
  assumes "InitializeOk env"
    and "selectDevice env (InputDevice (config w)) (DefaultInputDevice env) = Some dev"
    and "CreateOk env" and "HeaderWriteOk env" and "OpenStreamOk env" and "StreamStartOk env"
  shows "startRecording env w =
     w\<lparr>recording := True, state := StateRecording, recordingTime := 0, lastUpdate := Now env,
       paCalls := paCalls w @ [Initialize, OpenStream, StreamStart],
       disk := (disk w)((MemosPath (config w), generateFilename env (DefaultFormat (config w)))
                  \<mapsto> wavHeader (SampleRate (config w)) (ChannelCount (config w))
                        (BitDepth (config w) * 8) 0),
       openFiles := (openFiles w)((MemosPath (config w),
                        generateFilename env (DefaultFormat (config w))) \<mapsto> 44),
       audioDevice := Some \<lparr>stream = Some (streamParams (config w) dev),
                             recordingFile = Some (MemosPath (config w),
                                generateFilename env (DefaultFormat (config w))),
                             playbackData = None, playbackPos = 0\<rparr>\<rparr>"
  using assms
  by (simp add: startRecording_def file_Write_def pa_def content_of_def writeAt_def Let_def)

lemma processAudioInput_rec:
  assumes "audioDevice w = Some dev" and "recordingFile dev = Some p"
    and "disk w p = Some c" and "openFiles w p = Some (length c)"
  shows "processAudioInput ok inp w =
     w\<lparr>disk := (disk w)(p \<mapsto> c @ (if ok then samplesToBytes inp else [])),
       openFiles := (openFiles w)(p \<mapsto> length c + length (if ok then samplesToBytes inp else []))\<rparr>"
  using assms
  by (simp add: processAudioInput_def file_Write_def content_of_def writeAt_end map_upd_triv)

text \<open>
  A tick while the audio device is a recording device (it has no playback data) changes
  only the clock fields, the pulse and the notification.
\<close>

lemma tick_rec:
  assumes "audioDevice w = Some dev" and "playbackData dev = None"
  shows "disk (Update_tickMsg now w) = disk w"
    and "openFiles (Update_tickMsg now w) = openFiles w"
    and "audioDevice (Update_tickMsg now w) = audioDevice w"
    and "config (Update_tickMsg now w) = config w"
    and "memos (Update_tickMsg now w) = memos w"
    and "paCalls (Update_tickMsg now w) = paCalls w"
    and "recording (Update_tickMsg now w) = recording w"
    and "recordingTime (Update_tickMsg now w) =
           (if recording w then now - lastUpdate w + recordingTime w else recordingTime w)"
    and "lastUpdate (Update_tickMsg now w) = now"
  using assms by (simp_all add: Update_tickMsg_def Let_def split: option.splits)

lemma step_rec:
  assumes "audioDevice w = Some dev" and "recordingFile dev = Some p"
    and "playbackData dev = None"
    and "disk w p = Some c" and "openFiles w p = Some (length c)"
  shows "audioDevice (step e w) = Some dev"
    and "disk (step e w) = (disk w)(p \<mapsto> c @ written e)"
    and "openFiles (step e w) = (openFiles w)(p \<mapsto> length c + length (written e))"
    and "config (step e w) = config w"
    and "memos (step e w) = memos w"
    and "paCalls (step e w) = paCalls w"
    and "recording (step e w) = recording w"
    and "recording w \<longrightarrow>
           recordingTime (step e w) - lastUpdate (step e w) = recordingTime w - lastUpdate w"
proof -
  show "audioDevice (step e w) = Some dev"
    using assms
    by (cases e) (simp_all add: processAudioInput_rec [OF assms(1,2,4,5)] tick_rec [OF assms(1,3)])
  show "disk (step e w) = (disk w)(p \<mapsto> c @ written e)"
    using assms(4)
    by (cases e)
      (simp_all add: processAudioInput_rec [OF assms(1,2,4,5)] tick_rec [OF assms(1,3)] map_upd_triv)
  show "openFiles (step e w) = (openFiles w)(p \<mapsto> length c + length (written e))"
    using assms(5)
    by (cases e)
      (simp_all add: processAudioInput_rec [OF assms(1,2,4,5)] tick_rec [OF assms(1,3)] map_upd_triv)
  show "config (step e w) = config w"
    by (cases e) (simp_all add: processAudioInput_rec [OF assms(1,2,4,5)] tick_rec [OF assms(1,3)])
  show "memos (step e w) = memos w"
    by (cases e) (simp_all add: processAudioInput_rec [OF assms(1,2,4,5)] tick_rec [OF assms(1,3)])
  show "paCalls (step e w) = paCalls w"
    by (cases e) (simp_all add: processAudioInput_rec [OF assms(1,2,4,5)] tick_rec [OF assms(1,3)])
  show "recording (step e w) = recording w"
    by (cases e) (simp_all add: processAudioInput_rec [OF assms(1,2,4,5)] tick_rec [OF assms(1,3)])
  show "recording w \<longrightarrow>
           recordingTime (step e w) - lastUpdate (step e w) = recordingTime w - lastUpdate w"
    by (cases e) (simp_all add: processAudioInput_rec [OF assms(1,2,4,5)] tick_rec [OF assms(1,3)])
qed

lemma payload_Cons: "payload (e # es) = written e @ payload es"
  by (simp add: payload_def)

lemma run_Cons: "run (e # es) w = run es (step e w)"
  by (simp add: run_def)

lemma run_snoc: "run (es @ [e]) w = step e (run es w)"
  by (simp add: run_def)

text \<open>
  Blocks and ticks after a successful start: the recording device stays in place, the
  file grows by the payload, and nothing else on the disk or in the table of open files
  changes.
\<close>

lemma run_rec:
  assumes "audioDevice w = Some dev" and "recordingFile dev = Some p"
    and "playbackData dev = None"
    and "disk w p = Some c" and "openFiles w p = Some (length c)"
  shows "audioDevice (run events w) = Some dev
    \<and> disk (run events w) = (disk w)(p \<mapsto> c @ payload events)
    \<and> openFiles (run events w) = (openFiles w)(p \<mapsto> length c + length (payload events))
    \<and> config (run events w) = config w \<and> memos (run events w) = memos w
    \<and> paCalls (run events w) = paCalls w \<and> recording (run events w) = recording w
    \<and> (recording w \<longrightarrow>
         recordingTime (run events w) - lastUpdate (run events w)
           = recordingTime w - lastUpdate w)"
  using assms
proof (induction events arbitrary: w c)
  case Nil
  then show ?case by (simp add: run_def payload_def map_upd_triv)
next
  case (Cons e es)
  define w1 where "w1 = step e w"
  note s = step_rec [OF Cons.prems, of e, folded w1_def]
  have a: "disk w1 p = Some (c @ written e)" "openFiles w1 p = Some (length (c @ written e))"
    by (simp_all add: s)
  from Cons.IH [OF s(1) Cons.prems(2,3) a]
  have ih: "audioDevice (run es w1) = Some dev"
    "disk (run es w1) = (disk w1)(p \<mapsto> (c @ written e) @ payload es)"
    "openFiles (run es w1) = (openFiles w1)(p \<mapsto> length (c @ written e) + length (payload es))"
    "config (run es w1) = config w1" "memos (run es w1) = memos w1"
    "paCalls (run es w1) = paCalls w1" "recording (run es w1) = recording w1"
    "recording w1 \<longrightarrow> recordingTime (run es w1) - lastUpdate (run es w1)
           = recordingTime w1 - lastUpdate w1"
    by blast+
  have t: "recording w \<longrightarrow> recordingTime (run es w1) - lastUpdate (run es w1)
           = recordingTime w - lastUpdate w"
    using ih(8) s(7,8) by simp
  show ?case
    unfolding run_Cons payload_Cons w1_def [symmetric]
    using t by (simp add: ih s add.assoc)
qed

lemma saveMemos_fields:
  "memos (saveMemos env w) = memos w" "config (saveMemos env w) = config w"
  "audioDevice (saveMemos env w) = audioDevice w" "openFiles (saveMemos env w) = openFiles w"
  "recording (saveMemos env w) = recording w" "state (saveMemos env w) = state w"
  "paCalls (saveMemos env w) = paCalls w"
  "disk (saveMemos env w) =
     (if SaveMemosOk env
      then (disk w)((MemosPath (config w), ''metadata.json'') \<mapsto> MetadataJSON env (memos w))
      else disk w)"
  by (simp_all add: saveMemos_def)

lemma stopRecording_rec:
  assumes "audioDevice w = Some dev" and "recordingFile dev = Some p"
    and "disk w p = Some c" and "snd p \<noteq> []"
    and "memo = \<lparr>ID = UnixSeconds env, Filename = snd p,
                   Name = TrimSuffix (snd p) (Ext (snd p)),
                   Duration = recordingDuration (config w) (of_nat (length c) - 44)
                                (recordingTime w),
                   Created = Now env, Size = of_nat (length c), Tags = [],
                   Format = AudioFormat_String (DefaultFormat (config w))\<rparr>"
    and "patched = writeAt c 40 (PutUint32 (ucast (of_nat (length c) - 44 :: goint)))"
  shows "stopRecording env w =
     w\<lparr>recording := False, state := StateViewing, audioDevice := None,
       paCalls := paCalls w
                  @ (case stream dev of None \<Rightarrow> [] | Some s \<Rightarrow> [StreamStop, StreamClose])
                  @ [Terminate],
       disk := (if SaveMemosOk env
                then ((disk w)(p \<mapsto> patched))
                       ((MemosPath (config w), ''metadata.json'')
                          \<mapsto> MetadataJSON env (memo # memos w))
                else (disk w)(p \<mapsto> patched)),
       openFiles := (openFiles w)(p := None),
       memos := memo # memos w,
       recordingTime := 0\<rparr>"
  using assms
  by (simp add: stopRecording_def finalizeFile_def file_Write_def pa_def content_of_def Let_def
      saveMemos_def split: option.splits)

lemma length_initialHeader [simp]: "length (initialHeader c) = 44"
  by (simp add: initialHeader_def)

lemma recordingPath_not_metadata:
  "recordingPath env c \<noteq> (dir, ''metadata.json'')" "snd (recordingPath env c) \<noteq> []"
  by (simp_all add: recordingPath_def generateFilename_def)

text \<open>The state between a successful start and the stop, and the state after the stop.\<close>

lemma recording_state:
  assumes "startOk env w"
  shows "\<exists>dev. audioDevice (run events (startRecording env w))
                  = Some \<lparr>stream = Some (streamParams (config w) dev),
                          recordingFile = Some (recordingPath env (config w)),
                          playbackData = None, playbackPos = 0\<rparr>"
    and "disk (run events (startRecording env w)) =
           (disk w)(recordingPath env (config w) \<mapsto> initialHeader (config w) @ payload events)"
    and "openFiles (run events (startRecording env w)) =
           (openFiles w)(recordingPath env (config w) \<mapsto> 44 + length (payload events))"
    and "config (run events (startRecording env w)) = config w"
    and "memos (run events (startRecording env w)) = memos w"
    and "recording (run events (startRecording env w))"
    and "recordingTime (run events (startRecording env w))
           = lastUpdate (run events (startRecording env w)) - Now env"
proof -
  let ?p = "recordingPath env (config w)"
  let ?H = "initialHeader (config w)"
  from assms obtain dev where
    dev: "selectDevice env (InputDevice (config w)) (DefaultInputDevice env) = Some dev"
    and ok: "InitializeOk env" "CreateOk env" "HeaderWriteOk env" "OpenStreamOk env"
      "StreamStartOk env"
    by (auto simp: startOk_def)
  define w1 where "w1 = startRecording env w"
  define d1 where "d1 = \<lparr>stream = Some (streamParams (config w) dev), recordingFile = Some ?p,
                         playbackData = None, playbackPos = 0\<rparr>"
  have w1: "w1 = w\<lparr>recording := True, state := StateRecording, recordingTime := 0,
       lastUpdate := Now env, paCalls := paCalls w @ [Initialize, OpenStream, StreamStart],
       disk := (disk w)(?p \<mapsto> ?H), openFiles := (openFiles w)(?p \<mapsto> 44),
       audioDevice := Some d1\<rparr>"
    unfolding w1_def d1_def recordingPath_def initialHeader_def
    by (rule startRecording_ok [OF ok(1) dev ok(2-5)])
  have a1: "audioDevice w1 = Some d1" "recordingFile d1 = Some ?p" "playbackData d1 = None"
    "disk w1 ?p = Some ?H" "openFiles w1 ?p = Some (length ?H)"
    by (simp_all add: w1 d1_def)
  have f1: "recording w1" "recordingTime w1 = 0" "lastUpdate w1 = Now env" "config w1 = config w"
    "memos w1 = memos w" "disk w1 = (disk w)(?p \<mapsto> ?H)"
    "openFiles w1 = (openFiles w)(?p \<mapsto> 44)"
    by (simp_all add: w1)
  note r = run_rec [OF a1, of events, folded w1_def]
  show "\<exists>dev. audioDevice (run events (startRecording env w))
                  = Some \<lparr>stream = Some (streamParams (config w) dev),
                          recordingFile = Some ?p, playbackData = None, playbackPos = 0\<rparr>"
    using r by (auto simp: w1_def [symmetric] d1_def)
  show "disk (run events (startRecording env w)) = (disk w)(?p \<mapsto> ?H @ payload events)"
    using r by (simp add: w1_def [symmetric] f1)
  show "openFiles (run events (startRecording env w))
          = (openFiles w)(?p \<mapsto> 44 + length (payload events))"
    using r by (simp add: w1_def [symmetric] f1)
  show "config (run events (startRecording env w)) = config w"
    using r by (simp add: w1_def [symmetric] f1)
  show "memos (run events (startRecording env w)) = memos w"
    using r by (simp add: w1_def [symmetric] f1)
  show "recording (run events (startRecording env w))"
    using r by (simp add: w1_def [symmetric] f1)
  show "recordingTime (run events (startRecording env w))
           = lastUpdate (run events (startRecording env w)) - Now env"
    using r f1(1) by (simp add: w1_def [symmetric] f1(2,3))
qed

lemma session_rec:
  assumes "startOk env w"
  shows "disk (session env events env' w) (recordingPath env (config w)) =
           Some (writeAt (initialHeader (config w) @ payload events) 40
                  (PutUint32 (ucast (of_nat (length (initialHeader (config w) @ payload events)) - 44
                     :: goint))))"
    and "openFiles (session env events env' w) = (openFiles w)(recordingPath env (config w) := None)"
    and "memos (session env events env' w) =
           \<lparr>ID = UnixSeconds env', Filename = snd (recordingPath env (config w)),
             Name = TrimSuffix (snd (recordingPath env (config w)))
                      (Ext (snd (recordingPath env (config w)))),
             Duration = recordingDuration (config w)
                          (of_nat (length (initialHeader (config w) @ payload events)) - 44)
                          (recordingTime (run events (startRecording env w))),
             Created = Now env',
             Size = of_nat (length (initialHeader (config w) @ payload events)), Tags = [],
             Format = AudioFormat_String (DefaultFormat (config w))\<rparr> # memos w"
    and "\<not> recording (session env events env' w)"
    and "audioDevice (session env events env' w) = None"
proof -
  let ?p = "recordingPath env (config w)"
  let ?H = "initialHeader (config w)"
  define w2 where "w2 = run events (startRecording env w)"
  from recording_state(1) [OF assms, of events] obtain dev where
    a: "audioDevice w2 = Some \<lparr>stream = Some (streamParams (config w) dev),
          recordingFile = Some ?p, playbackData = None, playbackPos = 0\<rparr>"
    by (auto simp: w2_def)
  have b: "recordingFile \<lparr>stream = Some (streamParams (config w) dev),
          recordingFile = Some ?p, playbackData = None, playbackPos = 0\<rparr> = Some ?p"
    by simp
  have f: "disk w2 = (disk w)(?p \<mapsto> ?H @ payload events)"
    "openFiles w2 = (openFiles w)(?p \<mapsto> 44 + length (payload events))"
    "config w2 = config w" "memos w2 = memos w"
    using recording_state(2-5) [OF assms, of events] by (simp_all add: w2_def)
  have c: "disk w2 ?p = Some (?H @ payload events)" by (simp add: f)
  have s: "session env events env' w = stopRecording env' w2"
    by (simp add: session_def w2_def)
  note st = stopRecording_rec [OF a b c recordingPath_not_metadata(2) refl refl, of env']
  show "disk (session env events env' w) ?p =
           Some (writeAt (?H @ payload events) 40
                  (PutUint32 (ucast (of_nat (length (?H @ payload events)) - 44 :: goint))))"
    unfolding s st using recordingPath_not_metadata(1) [of env "config w" "MemosPath (config w)"]
    by (simp add: f)
  show "openFiles (session env events env' w) = (openFiles w)(?p := None)"
    unfolding s st by (simp add: f)
  show "memos (session env events env' w) =
           \<lparr>ID = UnixSeconds env', Filename = snd ?p,
             Name = TrimSuffix (snd ?p) (Ext (snd ?p)),
             Duration = recordingDuration (config w)
                          (of_nat (length (?H @ payload events)) - 44)
                          (recordingTime (run events (startRecording env w))),
             Created = Now env',
             Size = of_nat (length (?H @ payload events)), Tags = [],
             Format = AudioFormat_String (DefaultFormat (config w))\<rparr> # memos w"
    unfolding s st by (simp add: f w2_def [symmetric])
  show "\<not> recording (session env events env' w)"
    unfolding s st by simp
  show "audioDevice (session env events env' w) = None"
    unfolding s st by simp
qed

lemma patched_file:
  assumes "44 \<le> length c"
  shows "slice (writeAt c 40 (PutUint32 v)) 40 44 = PutUint32 v"
    and "length (writeAt c 40 (PutUint32 v)) = length c"
    and "i < 40 \<or> 44 \<le> i \<Longrightarrow> writeAt c 40 (PutUint32 v) ! i = c ! i"
proof -
  have w: "writeAt c 40 (PutUint32 v) = take 40 c @ PutUint32 v @ drop 44 c"
    using assms by (simp add: writeAt_patch)
  show "slice (writeAt c 40 (PutUint32 v)) 40 44 = PutUint32 v"
    using assms by (simp add: w slice_def)
  show "length (writeAt c 40 (PutUint32 v)) = length c"
    using assms by (simp add: w)
  show "writeAt c 40 (PutUint32 v) ! i = c ! i" if "i < 40 \<or> 44 \<le> i"
    using that assms by (auto simp: w nth_append)
qed

lemma unat_ucast_of_nat: "unat (ucast (of_nat n :: goint) :: 32 word) = n mod 2 ^ 32"
proof -
  have "unat (ucast (of_nat n :: goint) :: 32 word) = take_bit 32 (unat (of_nat n :: goint))"
    by (simp add: unsigned_ucast_eq)
  also have "\<dots> = (n mod 2 ^ 64) mod 2 ^ 32"
    by (simp add: unat_of_nat take_bit_eq_mod)
  also have "\<dots> = n mod 2 ^ 32"
    by (rule mod_mod_cancel) (simp add: le_imp_power_dvd)
  finally show ?thesis .
qed

lemma session_file:
  assumes "startOk env w"
  shows "length (content_of (disk (session env events env' w)) (recordingPath env (config w)))
           = 44 + length (payload events)"
    and "unat (Uint32 (slice (content_of (disk (session env events env' w))
                                (recordingPath env (config w))) 40 44))
           = length (payload events) mod 2 ^ 32"
  using session_rec(1) [OF assms, of events env']
  using unat_ucast_of_nat [of "length (payload events)"]
  by (simp_all add: content_of_def patched_file Uint32_PutUint32)

lemma length_payload_replicate:
  "length (payload (replicate n (Block True xs))) = n * (2 * length xs)"
  by (induction n) (simp_all add: payload_def length_samplesToBytes)

lemma length_payload_examples:
  "length (payload [Block True (replicate 10 1000), Tick 5, Block False [1, 2],
                    Block True (replicate 20 7)]) = 60"
  by (simp add: payload_def length_samplesToBytes)

lemma startOk_allOk: "startOk (allOk stamp now) w"
  by (simp add: startOk_def allOk_def selectDevice_def split: option.splits)

text \<open>
  Claim C1, as amended. A recording session here is a start that succeeds, any sequence
  of delivered blocks and timer ticks, and the stop. After it the file is 44 bytes of
  header and the payload of the blocks, and the 32-bit little-endian field at offset 40
  holds the file size minus 44 modulo \<open>2^32\<close>; it equals the file size minus 44 whenever
  that is below \<open>2^32\<close>.
\<close>

theorem session_dataChunkSize:
  assumes "startOk env w"
  shows "length (content_of (disk (session env events env' w)) (recordingPath env (config w)))
           = 44 + length (payload events)
    \<and> unat (Uint32 (slice (content_of (disk (session env events env' w))
                              (recordingPath env (config w))) 40 44))
        = (length (content_of (disk (session env events env' w)) (recordingPath env (config w)))
             - 44) mod 2 ^ 32
    \<and> (length (content_of (disk (session env events env' w)) (recordingPath env (config w))) - 44
          < 2 ^ 32 \<longrightarrow>
        unat (Uint32 (slice (content_of (disk (session env events env' w))
                               (recordingPath env (config w))) 40 44))
          = length (content_of (disk (session env events env' w)) (recordingPath env (config w)))
              - 44)"
  using session_file [OF assms, of events env'] by simp

theorem session_dataChunkSize_witness:
  "startOk (allOk ''t'' 0) (initialModel (defaultConfig ''memos'') [] 0 Map.empty)
   \<and> length (content_of (disk (session (allOk ''t'' 0)
                [Block True (replicate 10 1000), Tick 5, Block False [1, 2],
                 Block True (replicate 20 7)]
                (allOk ''t'' 9) (initialModel (defaultConfig ''memos'') [] 0 Map.empty)))
        (recordingPath (allOk ''t'' 0)
           (config (initialModel (defaultConfig ''memos'') [] 0 Map.empty)))) = 104
   \<and> unat (Uint32 (slice (content_of (disk (session (allOk ''t'' 0)
                [Block True (replicate 10 1000), Tick 5, Block False [1, 2],
                 Block True (replicate 20 7)]
                (allOk ''t'' 9) (initialModel (defaultConfig ''memos'') [] 0 Map.empty)))
        (recordingPath (allOk ''t'' 0)
           (config (initialModel (defaultConfig ''memos'') [] 0 Map.empty)))) 40 44)) = 60"
  using session_dataChunkSize [OF startOk_allOk [of "''t''" 0
        "initialModel (defaultConfig ''memos'') [] 0 Map.empty"],
      where events = "[Block True (replicate 10 1000), Tick 5, Block False [1, 2],
                 Block True (replicate 20 7)]" and env' = "allOk ''t'' 9"]
  by (simp add: length_payload_examples startOk_allOk)

text \<open>
  Claim C1 as stated fails for a payload of \<open>2^32\<close> bytes (1048576 blocks of 1024
  stereo frames): the file size minus 44 is 4294967296 and the field holds 0.
\<close>

theorem session_dataChunkSize_counterexample:
  "length (content_of (disk (session (allOk ''t'' 0)
                (replicate 1048576 (Block True (replicate 2048 0)))
                (allOk ''t'' 1) (initialModel (defaultConfig ''memos'') [] 0 Map.empty)))
        (recordingPath (allOk ''t'' 0)
           (config (initialModel (defaultConfig ''memos'') [] 0 Map.empty)))) - 44 = 4294967296
   \<and> unat (Uint32 (slice (content_of (disk (session (allOk ''t'' 0)
                (replicate 1048576 (Block True (replicate 2048 0)))
                (allOk ''t'' 1) (initialModel (defaultConfig ''memos'') [] 0 Map.empty)))
        (recordingPath (allOk ''t'' 0)
           (config (initialModel (defaultConfig ''memos'') [] 0 Map.empty)))) 40 44)) = 0"
  using session_file [OF startOk_allOk [of "''t''" 0
        "initialModel (defaultConfig ''memos'') [] 0 Map.empty"],
      where events = "replicate 1048576 (Block True (replicate 2048 0))" and env' = "allOk ''t'' 1"]
  by (simp add: length_payload_replicate)

text \<open>
  A session with a playback command. The Play key is not guarded by \<^verbatim>\<open>m.recording\<close>,
  and \<^verbatim>\<open>startPlayback\<close> replaces \<^verbatim>\<open>m.audioDevice\<close>. When playback is started
  between the start and the stop of a recording, \<^verbatim>\<open>stopRecording\<close> finds no recording
  file: it patches nothing, so the size field keeps the placeholder 0 although 4 bytes
  of payload were written, the file stays open, and no memo is added.
\<close>

lemma readWAVData_example:
  assumes "d (''memos'', ''a.wav'') = Some (wavHeader 44100 1 16 4 @ samplesToBytes [1, 2])"
  shows "readWAVData d (''memos'', ''a.wav'') = Inr ([1, 2], 44100, 1)"
proof -
  have "readWAVData (d((''memos'', ''a.wav'')
          \<mapsto> wavHeader 44100 1 16 (of_nat (length (samplesToBytes [1, 2 :: 16 word])))
              @ samplesToBytes [1, 2])) (''memos'', ''a.wav'') = Inr ([1, 2], 44100, 1)"
    by (rule readWAVData_roundtrip) (simp_all add: length_samplesToBytes)
  moreover have "d((''memos'', ''a.wav'')
          \<mapsto> wavHeader 44100 1 16 (of_nat (length (samplesToBytes [1, 2 :: 16 word])))
              @ samplesToBytes [1, 2]) = d"
    using assms by (simp add: length_samplesToBytes map_upd_triv)
  ultimately show ?thesis by simp
qed

lemma stopRecording_no_file:
  assumes "audioDevice w = Some dev" and "recordingFile dev = None"
  shows "disk (stopRecording env w) = disk w" and "openFiles (stopRecording env w) = openFiles w"
    and "memos (stopRecording env w) = memos w" and "\<not> recording (stopRecording env w)"
    and "audioDevice (stopRecording env w) = None"
  using assms by (simp_all add: stopRecording_def pa_def Let_def split: option.splits)

lemma playback_during_recording:
  "map_option
     (\<lambda>w. let w' = stopRecording (allOk ''t'' 9) w
          in (recording w', audioDevice w',
              length (content_of (disk w') (''memos'', ''memo_t.wav'')) - 44,
              unat (Uint32 (slice (content_of (disk w') (''memos'', ''memo_t.wav'')) 40 44)),
              openFiles w' (''memos'', ''memo_t.wav''),
              map Filename (memos w')))
     (startPlayback (allOk ''t'' 0)
        (run [Block True [5, 6]]
           (startRecording (allOk ''t'' 0)
              (initialModel (defaultConfig ''memos'') [memoOf ''a.wav''] 0
                 [(''memos'', ''a.wav'') \<mapsto> wavHeader 44100 1 16 4 @ samplesToBytes [1, 2]]))))
   = Some (False, None, 4, 0, Some 48, [''a.wav''])"
proof -
  let ?a = "wavHeader 44100 1 16 4 @ samplesToBytes [1, 2 :: 16 word]"
  let ?w0 = "initialModel (defaultConfig ''memos'') [memoOf ''a.wav''] 0 [(''memos'', ''a.wav'') \<mapsto> ?a]"
  let ?p = "(''memos'', ''memo_t.wav'')"
  let ?H = "initialHeader (defaultConfig ''memos'')"
  define w2 where "w2 = run [Block True [5, 6]] (startRecording (allOk ''t'' 0) ?w0)"
  have rp: "recordingPath (allOk ''t'' 0) (config ?w0) = ?p"
    by (simp add: recordingPath_def generateFilename_def allOk_def initialModel_def
        defaultConfig_def)
  have pl: "payload [Block True [5, 6]] = samplesToBytes [5, 6]"
    by (simp add: payload_def)
  have f: "disk w2 = (disk ?w0)(?p \<mapsto> ?H @ samplesToBytes [5, 6])"
    "openFiles w2 = (openFiles ?w0)(?p \<mapsto> 44 + length (samplesToBytes [5, 6 :: 16 word]))"
    "config w2 = config ?w0" "memos w2 = memos ?w0"
    using recording_state(2-5) [OF startOk_allOk [of "''t''" 0 ?w0], of "[Block True [5, 6]]"]
    by (simp_all only: rp pl w2_def [symmetric]) (simp_all add: initialModel_def)
  have si: "selectedIdx w2 = 0"
    by (simp add: w2_def run_def startRecording_def processAudioInput_def file_Write_def pa_def
        allOk_def initialModel_def defaultConfig_def selectDevice_def Let_def)
  have r: "readWAVData (disk w2) (MemosPath (config w2), Filename (memos w2 ! selectedIdx w2))
             = Inr ([1, 2], 44100, 1)"
    by (simp add: f si initialModel_def defaultConfig_def memoOf_def readWAVData_example)
  have "startPlayback (allOk ''t'' 0) w2 =
     Some (w2\<lparr>audioDevice :=
               Some \<lparr>stream = Some \<lparr>streamSampleRate = float64 (sint (44100 :: goint)),
                                    streamChannels = 1, FramesPerBuffer = 1024\<rparr>,
                     recordingFile = None, playbackData = Some [1, 2], playbackPos = 0\<rparr>,
             paCalls := paCalls w2 @ [Initialize, OpenStream, StreamStart],
             playing := True, state := StatePlaying, displayPos := 0,
             lastUpdate := Now (allOk ''t'' 0)\<rparr>)"
    by (rule startPlayback_ok [OF _ _ r])
       (simp_all add: f si initialModel_def allOk_def selectDevice_def defaultConfig_def)
  then obtain w3 dev where w3: "startPlayback (allOk ''t'' 0) w2 = Some w3"
    and a: "audioDevice w3 = Some dev" "recordingFile dev = None"
    and g: "disk w3 = disk w2" "openFiles w3 = openFiles w2" "memos w3 = memos w2"
    by simp
  note s = stopRecording_no_file [OF a, of "allOk ''t'' 9"]
  have c: "content_of (disk w2) ?p = ?H @ samplesToBytes [5, 6]"
    by (simp add: f content_of_def)
  have z: "unat (Uint32 (slice (?H @ samplesToBytes [5, 6]) 40 44)) = 0"
    by (simp add: initialHeader_def wavHeader_def slice_def Uint32_PutUint32)
  have o: "openFiles w2 ?p = Some 48" "map Filename (memos w2) = [''a.wav'']"
    by (simp_all add: f length_samplesToBytes initialModel_def memoOf_def)
  have l: "length (?H @ samplesToBytes [5, 6 :: 16 word]) - 44 = 4"
    by (simp add: length_samplesToBytes)
  show ?thesis
    unfolding w2_def [symmetric] w3
    by (simp add: Let_def s g c z o l length_samplesToBytes)
qed

lemma riff_size_field: "Uint32 (slice (initialHeader c @ bs) 4 8) = 36"
  by (simp add: initialHeader_def wavHeader_def slice_def Uint32_PutUint32)

text \<open>
  Claim C10. In a recording session (a start that succeeds, blocks and ticks, the stop),
  the file before \<^verbatim>\<open>stopRecording\<close> is the header written at the start followed by the
  payload. \<^verbatim>\<open>stopRecording\<close> keeps its length and every byte outside offsets 40 to 43,
  so the RIFF size field at offset 4 still holds the 36 written at the start.
\<close>

theorem stop_rewrites_only_size_field:
  assumes "startOk env w"
  shows "content_of (disk (run events (startRecording env w))) (recordingPath env (config w))
           = initialHeader (config w) @ payload events
    \<and> length (content_of (disk (session env events env' w)) (recordingPath env (config w)))
        = length (content_of (disk (run events (startRecording env w)))
                    (recordingPath env (config w)))
    \<and> (\<forall>i<length (content_of (disk (run events (startRecording env w)))
                     (recordingPath env (config w))).
          i < 40 \<or> 44 \<le> i \<longrightarrow>
          content_of (disk (session env events env' w)) (recordingPath env (config w)) ! i
          = content_of (disk (run events (startRecording env w)))
              (recordingPath env (config w)) ! i)
    \<and> Uint32 (slice (content_of (disk (session env events env' w))
                        (recordingPath env (config w))) 4 8) = 36"
proof -
  let ?p = "recordingPath env (config w)"
  let ?c = "initialHeader (config w) @ payload events"
  let ?v = "ucast (of_nat (length ?c) - 44 :: goint) :: 32 word"
  have len: "44 \<le> length ?c" by simp
  have b: "content_of (disk (run events (startRecording env w))) ?p = ?c"
    by (simp add: recording_state(2) [OF assms] content_of_def)
  have a: "content_of (disk (session env events env' w)) ?p = writeAt ?c 40 (PutUint32 ?v)"
    by (simp add: session_rec(1) [OF assms] content_of_def)
  have 1: "length (writeAt ?c 40 (PutUint32 ?v)) = length ?c"
    by (rule patched_file(2) [OF len])
  have 2: "\<forall>i. i < 40 \<or> 44 \<le> i \<longrightarrow> writeAt ?c 40 (PutUint32 ?v) ! i = ?c ! i"
    using patched_file(3) [OF len] by blast
  have "slice (writeAt ?c 40 (PutUint32 ?v)) 4 8 = slice ?c 4 8"
    using len by (simp add: writeAt_patch slice_def drop_take)
  then have 3: "Uint32 (slice (writeAt ?c 40 (PutUint32 ?v)) 4 8) = 36"
    by (simp add: riff_size_field)
  show ?thesis
    unfolding a b using 1 2 3 by simp
qed

theorem stop_rewrites_only_size_field_witness:
  "startOk (allOk ''t'' 0) (initialModel (defaultConfig ''memos'') [] 0 Map.empty)
   \<and> length (content_of (disk (session (allOk ''t'' 0)
                (replicate 3 (Block True (replicate 10 1000)))
                (allOk ''t'' 1) (initialModel (defaultConfig ''memos'') [] 0 Map.empty)))
        (recordingPath (allOk ''t'' 0)
           (config (initialModel (defaultConfig ''memos'') [] 0 Map.empty)))) = 104
   \<and> Uint32 (slice (content_of (disk (session (allOk ''t'' 0)
                (replicate 3 (Block True (replicate 10 1000)))
                (allOk ''t'' 1) (initialModel (defaultConfig ''memos'') [] 0 Map.empty)))
        (recordingPath (allOk ''t'' 0)
           (config (initialModel (defaultConfig ''memos'') [] 0 Map.empty)))) 4 8) = 36
   \<and> (40 :: nat) \<noteq> 4"
  using stop_rewrites_only_size_field [OF startOk_allOk [of "''t''" 0
        "initialModel (defaultConfig ''memos'') [] 0 Map.empty"],
      where events = "replicate 3 (Block True (replicate 10 1000))" and env' = "allOk ''t'' 1"]
  by (simp add: length_payload_replicate startOk_allOk)

subsection \<open>The duration of a finalized recording\<close>

lemma sint_of_nat_goint: "n < 2 ^ 63 \<Longrightarrow> sint (of_nat n :: goint) = int n"
proof -
  assume n: "n < 2 ^ 63"
  then have "int n < 2 ^ 63" by (metis of_nat_less_iff of_nat_numeral of_nat_power)
  then show ?thesis
    by (simp add: signed_of_nat signed_take_bit_int_eq_self_iff)
qed

lemma sint_mult_goint:
  fixes a b :: goint
  assumes "- (2 ^ 63) \<le> sint a * sint b" and "sint a * sint b < 2 ^ 63"
  shows "sint (a * b) = sint a * sint b"
  using assms by (simp add: sint_word_ariths signed_take_bit_int_eq_self_iff)

lemma sint_go_div:
  assumes "0 \<le> sint a" and "0 < sint b"
  shows "sint (go_div a b) = sint a div sint b"
proof -
  have eq: "sint a sdiv sint b = sint a div sint b"
    using assms by (simp add: signed_divide_int_def sgn_if)
  have "0 \<le> sint a div sint b" using assms by (simp add: pos_imp_zdiv_nonneg_iff)
  moreover have "sint a div sint b \<le> sint a"
    using assms int_div_le_self [of "sint a" "sint b"] by (cases "sint a = 0") simp_all
  moreover have "sint a < 2 ^ 63" using sint_lt [of a] by simp
  ultimately show ?thesis
    by (simp add: go_div_def eq sint_sbintrunc' signed_take_bit_int_eq_self_iff)
qed

text \<open>
  With a positive channel count, positive bytes per sample whose product fits an
  \<^verbatim>\<open>int\<close>, and a positive sample rate, the duration is the data size divided by the
  product, as integers, and then, as doubles, by the sample rate.
\<close>

lemma recordingDuration_value:
  assumes "0 < sint (ChannelCount c)" and "0 < sint (BitDepth c)"
    and "sint (ChannelCount c) * sint (BitDepth c) < 2 ^ 63"
    and "0 < sint (SampleRate c)" and "n < 2 ^ 63"
  shows "recordingDuration c (of_nat n) t =
           round_f64 (float64 (int (n div nat (sint (ChannelCount c) * sint (BitDepth c))))
                      / float64 (sint (SampleRate c)))"
proof -
  let ?b = "sint (ChannelCount c) * sint (BitDepth c)"
  have pos: "0 < ?b" using assms(1,2) by simp
  have m: "sint (ChannelCount c * BitDepth c) = ?b"
    using pos assms(3) by (intro sint_mult_goint) simp_all
  have n: "sint (of_nat n :: goint) = int n" by (rule sint_of_nat_goint [OF assms(5)])
  have d: "sint (go_div (of_nat n) (ChannelCount c * BitDepth c)) = int n div ?b"
    using pos by (simp add: sint_go_div m n)
  have i: "int n div ?b = int (n div nat ?b)"
    using pos by (simp add: zdiv_int)
  have g: "0 < sint (ChannelCount c * BitDepth c) \<and> 0 < sint (SampleRate c)"
    using pos assms(4) m by simp
  show ?thesis
    unfolding recordingDuration_def Let_def using g by (simp only: d i simp_thms if_True)
qed

lemma example_duration:
  "recordingDuration ((defaultConfig ''memos'')\<lparr>ChannelCount := 1\<rparr>) 441000 t = 5"
proof -
  have "round_f64 (float64 220500 / float64 44100) = 5" by code_simp
  then show ?thesis
    by (simp add: recordingDuration_def defaultConfig_def go_div_def signed_divide_int_def)
qed

lemma Seconds_example: "Seconds 7000000000 = 7" "Seconds 1500000000 = 3 / 2"
  by code_simp+

lemma overflow_duration:
  "recordingDuration ((defaultConfig ''memos'')\<lparr>ChannelCount := 4611686018427387904\<rparr>)
     4096 7000000000 = 7"
  by (simp add: recordingDuration_def defaultConfig_def Seconds_example)

lemma tick_lastUpdate: "lastUpdate (Update_tickMsg now w) = now"
  by (simp add: Update_tickMsg_def Let_def split: option.splits)

text \<open>
  The elapsed recording time at the stop is the time of the last tick minus the time of
  the start.
\<close>

lemma session_elapsed:
  assumes "startOk env w"
  shows "recordingTime (run (events @ [Tick t]) (startRecording env w)) = t - Now env"
  using recording_state(7) [OF assms, of "events @ [Tick t]"]
  by (simp add: run_snoc tick_lastUpdate)

lemma session_duration:
  assumes "startOk env w"
  shows "map Duration (memos (session env events env' w)) =
           recordingDuration (config w) (of_nat (length (payload events)))
             (recordingTime (run events (startRecording env w)))
           # map Duration (memos w)"
  by (simp add: session_rec(3) [OF assms])

text \<open>
  A mono session at 44100 Hz and 2 bytes per sample with 441000 bytes of payload is
  stored with the duration 5.
\<close>

lemma five_seconds:
  "map Duration (memos (session (allOk ''t'' 0) (replicate 2205 (Block True (replicate 100 0)))
          (allOk ''t'' 1)
          (initialModel ((defaultConfig ''memos'')\<lparr>ChannelCount := 1\<rparr>) [] 0 Map.empty))) = [5]"
  using example_duration
  by (simp add: session_duration [OF startOk_allOk] length_payload_replicate initialModel_def)

text \<open>
  Claim C8, evaluated at a configuration file with \<^verbatim>\<open>"channel_count"\<close> 4611686018427387904
  (\<open>2^62\<close>), which \<^verbatim>\<open>loadConfig\<close> keeps since it is positive, and the default 2 bytes per
  sample and 44100 Hz. Every format field is positive, but the product
  \<^verbatim>\<open>ChannelCount * BitDepth\<close> overflows to a negative \<^verbatim>\<open>int\<close>, so the guard
  \<^verbatim>\<open>bytesPerSample > 0\<close> fails: after a session with one block of 4096 bytes that is
  stopped 7 seconds after its start, the stored duration is the elapsed 7 seconds, where
  the data size divided by channel count times bytes per sample and by the sample rate is
  below one second.
\<close>

theorem stopRecording_duration_overflow:
  "0 < sint (ChannelCount ((defaultConfig ''memos'')\<lparr>ChannelCount := 4611686018427387904\<rparr>))
   \<and> 0 < sint (BitDepth ((defaultConfig ''memos'')\<lparr>ChannelCount := 4611686018427387904\<rparr>))
   \<and> 0 < sint (SampleRate ((defaultConfig ''memos'')\<lparr>ChannelCount := 4611686018427387904\<rparr>))
   \<and> length (payload [Tick 100000000, Block True (replicate 2048 0), Tick 7000000000]) = 4096
   \<and> map Duration (memos (session (allOk ''t'' 0)
        [Tick 100000000, Block True (replicate 2048 0), Tick 7000000000]
        (allOk ''t'' 7000000000)
        (initialModel ((defaultConfig ''memos'')\<lparr>ChannelCount := 4611686018427387904\<rparr>)
           [] 0 Map.empty))) = [7]
   \<and> (4096 :: rat) / (4611686018427387904 * 2) / 44100 < 1"
proof -
  let ?c = "(defaultConfig ''memos'')\<lparr>ChannelCount := 4611686018427387904\<rparr>"
  let ?w = "initialModel ?c [] 0 Map.empty"
  have p: "length (payload [Tick 100000000, Block True (replicate 2048 0), Tick 7000000000]) = 4096"
    by (simp add: payload_def length_samplesToBytes)
  have e: "recordingTime (run ([Tick 100000000, Block True (replicate 2048 0)] @ [Tick 7000000000])
             (startRecording (allOk ''t'' 0) ?w)) = 7000000000 - Now (allOk ''t'' 0)"
    by (rule session_elapsed [OF startOk_allOk])
  have n: "Now (allOk ''t'' 0) = 0" by (simp add: allOk_def)
  have cw: "config ?w = ?c" "memos ?w = []" by (simp_all add: initialModel_def)
  have e': "recordingTime (run [Tick 100000000, Block True (replicate 2048 0), Tick 7000000000]
             (startRecording (allOk ''t'' 0) ?w)) = 7000000000"
    using e n by simp
  have "map Duration (memos (session (allOk ''t'' 0)
        [Tick 100000000, Block True (replicate 2048 0), Tick 7000000000]
        (allOk ''t'' 7000000000) ?w))
      = recordingDuration (config ?w)
          (of_nat (length (payload [Tick 100000000, Block True (replicate 2048 0),
                                    Tick 7000000000])))
          (recordingTime (run [Tick 100000000, Block True (replicate 2048 0), Tick 7000000000]
             (startRecording (allOk ''t'' 0) ?w)))
        # map Duration (memos ?w)"
    by (rule session_duration [OF startOk_allOk])
  then have d: "map Duration (memos (session (allOk ''t'' 0)
        [Tick 100000000, Block True (replicate 2048 0), Tick 7000000000]
        (allOk ''t'' 7000000000) ?w)) = [7]"
    by (simp only: cw e' p) (simp add: overflow_duration)
  show ?thesis
    using p d by (simp add: defaultConfig_def)
qed

subsection \<open>Failures during the start of a recording\<close>

lemma stopRecording_idle:
  "\<not> recording (stopRecording env w) \<and> state (stopRecording env w) = StateViewing"
  by (simp add: stopRecording_def finalizeFile_def file_Write_def pa_def saveMemos_def Let_def
      split: option.splits prod.splits)

text \<open>Every failure during \<^verbatim>\<open>startRecording\<close> leaves the model idle.\<close>

lemma startRecording_failure_idle:
  assumes "\<not> startOk env w"
  shows "\<not> recording (startRecording env w) \<and> state (startRecording env w) = StateViewing"
  using assms
  by (auto simp: startRecording_def startOk_def Let_def pa_def stopRecording_idle
      split: option.splits)

text \<open>
  Claim C7, evaluated at two failures of \<^verbatim>\<open>startRecording\<close> from an idle state
  without memos. When opening the stream fails, the cleanup through \<^verbatim>\<open>stopRecording\<close>
  finalises the header-only file and prepends a memo for it (size 44). When the header
  write fails, \<^verbatim>\<open>m.audioDevice\<close> has not been assigned yet, so \<^verbatim>\<open>stopRecording\<close>
  closes nothing: \<^verbatim>\<open>startRecording\<close> returns with the created file still in the table
  of open files and with no field of the model referring to it. In both cases the model
  is idle afterwards.
\<close>

theorem startRecording_failure_paths:
  "\<not> recording (startRecording ((allOk ''t'' 0)\<lparr>OpenStreamOk := False\<rparr>)
        (initialModel (defaultConfig ''memos'') [] 0 Map.empty))
   \<and> map (\<lambda>m. (Filename m, Size m))
        (memos (startRecording ((allOk ''t'' 0)\<lparr>OpenStreamOk := False\<rparr>)
           (initialModel (defaultConfig ''memos'') [] 0 Map.empty)))
       = [(''memo_t.wav'', 44)]
   \<and> \<not> recording (startRecording ((allOk ''t'' 0)\<lparr>HeaderWriteOk := False\<rparr>)
        (initialModel (defaultConfig ''memos'') [] 0 Map.empty))
   \<and> audioDevice (startRecording ((allOk ''t'' 0)\<lparr>HeaderWriteOk := False\<rparr>)
        (initialModel (defaultConfig ''memos'') [] 0 Map.empty)) = None
   \<and> openFiles (startRecording ((allOk ''t'' 0)\<lparr>HeaderWriteOk := False\<rparr>)
        (initialModel (defaultConfig ''memos'') [] 0 Map.empty)) (''memos'', ''memo_t.wav'')
       = Some 0"
  by (simp add: startRecording_def stopRecording_def finalizeFile_def file_Write_def pa_def
      content_of_def writeAt_def allOk_def initialModel_def defaultConfig_def selectDevice_def
      generateFilename_def saveMemos_def Let_def)

end
